theory Spec2Isabelle
  imports Complex_Main "HOL-Library.Signed_Division"
begin

section \<open>Enumerations and C integer arithmetic\<close>

text \<open>
  \<open>plasma_enum_t\<close> is one C enumeration shared by precisions, transposition flags,
  triangle selectors, matrix types, unit flags and sides. \<open>PlasmaInvalid\<close> stands for
  any value that is none of the named constants.
\<close>

datatype plasma_enum_t =
    PlasmaByte | PlasmaInteger | PlasmaRealFloat | PlasmaRealDouble
  | PlasmaComplexFloat | PlasmaComplexDouble
  | PlasmaNoTrans | PlasmaTrans | PlasmaConjTrans
  | PlasmaUpper | PlasmaLower | PlasmaGeneral | PlasmaGeneralBand
  | PlasmaNonUnit | PlasmaUnit
  | PlasmaLeft | PlasmaRight
  | PlasmaInvalid

text \<open>
  C \<open>int\<close> values are modelled as unbounded integers; \<open>/\<close> and \<open>%\<close> of C truncate
  towards zero and are written \<open>sdiv\<close> and \<open>smod\<close>. Results are assumed to stay
  inside the range of \<open>int\<close> (tile and matrix dimensions of a descriptor do); where a
  statement depends on it the range is a hypothesis, and the sum that
  \<open>CORE_OMP_zpotrf\<close> forwards is computed with its wrap-around.
  \<open>imax\<close> and \<open>imin\<close> are used by the sources and defined in a header that is not
  part of them: the larger and the smaller of two \<open>int\<close> values.
\<close>

definition imax :: "int \<Rightarrow> int \<Rightarrow> int" where
  "imax a b = (if a > b then a else b)"

definition imin :: "int \<Rightarrow> int \<Rightarrow> int" where
  "imin a b = (if a < b then a else b)"

section \<open>Tile descriptor (plasma\_descriptor.h)\<close>

text \<open>
  The structure \<open>plasma_desc_t\<close>. The submatrix fields \<open>i, j, m, n\<close> of the source are
  \<open>desc_i, desc_j, desc_m, desc_n\<close> here, \<open>type\<close> and \<open>uplo\<close> are \<open>desc_type\<close> and
  \<open>desc_uplo\<close>; \<open>matrix\<close> is the base address of the backing store in bytes.
\<close>

record plasma_desc_t =
  desc_type :: plasma_enum_t
  desc_uplo :: plasma_enum_t
  precision :: plasma_enum_t
  matrix :: int
  A21 :: int
  A12 :: int
  A22 :: int
  mb :: int
  nb :: int
  lm :: int
  ln :: int
  lmt :: int
  lnt :: int
  desc_i :: int
  desc_j :: int
  desc_m :: int
  desc_n :: int
  mt :: int
  nt :: int
  kl :: int
  ku :: int
  klt :: int
  kut :: int

text \<open>
  \<open>plasma_element_size\<close>; \<open>sizeof(int)\<close> and \<open>sizeof(float)\<close> are 4 and
  \<open>sizeof(double)\<close> is 8. The \<open>default: assert(0)\<close> branch is \<open>None\<close>.
\<close>

definition plasma_element_size :: "plasma_enum_t \<Rightarrow> int option" where
  "plasma_element_size t =
     (if t = PlasmaByte then Some 1
      else if t = PlasmaInteger then Some 4
      else if t = PlasmaRealFloat then Some 4
      else if t = PlasmaRealDouble then Some 8
      else if t = PlasmaComplexFloat then Some (2 * 4)
      else if t = PlasmaComplexDouble then Some (2 * 8)
      else None)"

text \<open>Element offset of tile \<open>(m, n)\<close> inside the backing store, as computed by
  \<open>plasma_tile_addr_general\<close> before scaling by the element size.\<close>

definition tile_offset_general :: "plasma_desc_t \<Rightarrow> int \<Rightarrow> int \<Rightarrow> int" where
  "tile_offset_general A m n =
     (let mm = m + desc_i A sdiv mb A;
          nn = n + desc_j A sdiv nb A;
          lm1 = lm A sdiv mb A;
          ln1 = ln A sdiv nb A
      in if mm < lm1
         then (if nn < ln1
               then mb A * nb A * (mm + lm1 * nn)
               else A12 A + (mb A * (ln A smod nb A) * mm))
         else (if nn < ln1
               then A21 A + (nb A * (lm A smod mb A) * nn)
               else A22 A))"

text \<open>\<open>plasma_tile_addr_general\<close>: byte address of tile \<open>(m, n)\<close>; \<open>None\<close> where the
  element size asserts.\<close>

definition plasma_tile_addr_general :: "plasma_desc_t \<Rightarrow> int \<Rightarrow> int \<Rightarrow> int option" where
  "plasma_tile_addr_general A m n =
     (case plasma_element_size (precision A) of
        None \<Rightarrow> None
      | Some eltsize \<Rightarrow> Some (matrix A + tile_offset_general A m n * eltsize))"

definition plasma_tile_addr_general_band :: "plasma_desc_t \<Rightarrow> int \<Rightarrow> int \<Rightarrow> int option" where
  "plasma_tile_addr_general_band A m n =
     (let kut' = (if desc_uplo A = PlasmaGeneral then (kl A + kl A + nb A - 1) sdiv nb A
                  else if desc_uplo A = PlasmaUpper then (ku A + nb A - 1) sdiv nb A
                  else 0)
      in plasma_tile_addr_general A (kut' + m - n) n)"

text \<open>\<open>plasma_tile_addr\<close>; the fatal error on an invalid matrix type is \<open>None\<close>.\<close>

definition plasma_tile_addr :: "plasma_desc_t \<Rightarrow> int \<Rightarrow> int \<Rightarrow> int option" where
  "plasma_tile_addr A m n =
     (if desc_type A = PlasmaGeneral then plasma_tile_addr_general A m n
      else if desc_type A = PlasmaGeneralBand then plasma_tile_addr_general_band A m n
      else None)"

definition plasma_tile_mmain :: "plasma_desc_t \<Rightarrow> int \<Rightarrow> int" where
  "plasma_tile_mmain A k =
     (if desc_i A sdiv mb A + k < lm A sdiv mb A then mb A else lm A smod mb A)"

definition plasma_tile_nmain :: "plasma_desc_t \<Rightarrow> int \<Rightarrow> int" where
  "plasma_tile_nmain A k =
     (if desc_j A sdiv nb A + k < ln A sdiv nb A then nb A else ln A smod nb A)"

definition plasma_tile_mview :: "plasma_desc_t \<Rightarrow> int \<Rightarrow> int" where
  "plasma_tile_mview A k =
     (if desc_i A sdiv mb A + k < desc_m A sdiv mb A then mb A else desc_m A smod mb A)"

definition plasma_tile_nview :: "plasma_desc_t \<Rightarrow> int \<Rightarrow> int" where
  "plasma_tile_nview A k =
     (if desc_j A sdiv nb A + k < desc_n A sdiv nb A then nb A else desc_n A smod nb A)"


text \<open>
  Modelled from the spec: \<open>plasma_desc_general_init\<close> is declared in the header but its
  body is not part of the sources. The descriptor it fills in follows section 3.1:
  \<open>lmt = \<lceil>lm/mb\<rceil>\<close>, \<open>lnt = \<lceil>ln/nb\<rceil>\<close>, \<open>mt = \<lceil>(i mod mb + m)/mb\<rceil>\<close>,
  \<open>nt = \<lceil>(j mod nb + n)/nb\<rceil>\<close>, and a contiguous backing store made of the four
  zones, laid out in the order of the offset fields of the structure: the interior
  tiles from offset 0, then the bottom strip at \<open>A21\<close>, the right strip at \<open>A12\<close> and
  the corner tile at \<open>A22\<close>.
\<close>

definition plasma_desc_general_init ::
  "plasma_enum_t \<Rightarrow> int \<Rightarrow> int \<Rightarrow> int \<Rightarrow> int \<Rightarrow> int \<Rightarrow> int \<Rightarrow> int \<Rightarrow> int \<Rightarrow> int
     \<Rightarrow> plasma_desc_t" where
  "plasma_desc_general_init prec mat mb' nb' lm' ln' i' j' m' n' =
     (let a21 = (lm' - lm' smod mb') * (ln' - ln' smod nb');
          a12 = (lm' smod mb') * (ln' - ln' smod nb') + a21;
          a22 = (lm' - lm' smod mb') * (ln' smod nb') + a12
      in \<lparr> desc_type = PlasmaGeneral, desc_uplo = PlasmaGeneral, precision = prec,
           matrix = mat, A21 = a21, A12 = a12, A22 = a22,
           mb = mb', nb = nb', lm = lm', ln = ln',
           lmt = (lm' + mb' - 1) sdiv mb', lnt = (ln' + nb' - 1) sdiv nb',
           desc_i = i', desc_j = j', desc_m = m', desc_n = n',
           mt = (i' smod mb' + m' + mb' - 1) sdiv mb',
           nt = (j' smod nb' + n' + nb' - 1) sdiv nb',
           kl = 0, ku = 0, klt = 0, kut = 0 \<rparr>)"

text \<open>
  The rows of the submatrix \<open>[i, i+m)\<close> that lie in tile row \<open>k\<close> of the view, that
  is in tile row \<open>i/mb + k\<close> of the matrix: the statement of section 3.1 for
  \<open>tile_mview\<close>, written out as a count, and the same for columns.
\<close>

definition view_rows_in_tile :: "plasma_desc_t \<Rightarrow> int \<Rightarrow> int" where
  "view_rows_in_tile A k =
     int (length (filter (\<lambda>r. r sdiv mb A = desc_i A sdiv mb A + k)
                         [desc_i A ..  desc_i A + desc_m A - 1]))"

definition view_cols_in_tile :: "plasma_desc_t \<Rightarrow> int \<Rightarrow> int" where
  "view_cols_in_tile A k =
     int (length (filter (\<lambda>c. c sdiv nb A = desc_j A sdiv nb A + k)
                         [desc_j A ..  desc_j A + desc_n A - 1]))"

section \<open>Sequences and requests\<close>

text \<open>
  Statuses are C integers. \<open>PlasmaSuccess\<close> is 0: the task bodies compare a kernel's
  \<open>info\<close> both with 0 and with \<open>PlasmaSuccess\<close>. The header that numbers the error
  codes is not part of the sources; the two codes used below are taken as nonzero
  constants, and nothing depends on their values.
\<close>

definition PlasmaSuccess :: int where
  "PlasmaSuccess = 0"

definition PlasmaErrorIllegalValue :: int where
  "PlasmaErrorIllegalValue = - 3"

definition PlasmaErrorSequence :: int where
  "PlasmaErrorSequence = - 7"

record plasma_sequence_t =
  seq_status :: int

record plasma_request_t =
  req_status :: int

text \<open>
  Modelled from the spec: \<open>plasma_request_fail\<close> is called throughout the sources but
  not defined in them. Section 4.2: \<open>request_fail(seq, req, err)\<close> atomically sets
  both statuses to the first error observed; section 3.2: a failure may move the
  sequence to the first observed error, never reverting. So a sequence that is still
  successful takes \<open>err\<close>, a failed one keeps its error, and the request receives the
  error the sequence holds afterwards.
\<close>

definition plasma_request_fail ::
  "plasma_sequence_t \<Rightarrow> plasma_request_t \<Rightarrow> int \<Rightarrow> plasma_sequence_t \<times> plasma_request_t" where
  "plasma_request_fail sequence request err =
     (let first = (if seq_status sequence = PlasmaSuccess then err else seq_status sequence)
      in (sequence \<lparr> seq_status := first \<rparr>, request \<lparr> req_status := first \<rparr>))"

section \<open>Band layout translation (pzoocm2ccrb\_band.c)\<close>








section \<open>Tile matrix multiplication (pzgemm.c)\<close>

text \<open>One submission of \<open>core_omp_zgemm\<close>. The tile arguments produced by the macros
  \<open>A(m, n)\<close>, \<open>B(m, n)\<close>, \<open>C(m, n)\<close> are kept as the index pair given to the macro;
  \<open>zgemm_tile_addr\<close> expands the macro.\<close>

record zgemm_call =
  g_transA :: plasma_enum_t
  g_transB :: plasma_enum_t
  g_m :: int
  g_n :: int
  g_k :: int
  g_alpha :: complex
  g_A :: "int \<times> int"
  g_lda :: int
  g_B :: "int \<times> int"
  g_ldb :: int
  g_beta :: complex
  g_C :: "int \<times> int"
  g_ldc :: int

definition zgemm_tile_addr :: "plasma_desc_t \<Rightarrow> int \<times> int \<Rightarrow> int option" where
  "zgemm_tile_addr D t = plasma_tile_addr D (fst t) (snd t)"

text \<open>The body of the two outer loops: the submissions for the tile \<open>C(m, n)\<close>.\<close>

definition pzgemm_tile ::
  "plasma_enum_t \<Rightarrow> plasma_enum_t \<Rightarrow> complex \<Rightarrow> plasma_desc_t \<Rightarrow> plasma_desc_t \<Rightarrow> complex
     \<Rightarrow> plasma_desc_t \<Rightarrow> int \<Rightarrow> int \<Rightarrow> zgemm_call list" where
  "pzgemm_tile transA transB alpha A B beta C m n =
     (let mvcm = plasma_tile_mview C m;
          ldcm = plasma_tile_mmain C m;
          nvcn = plasma_tile_nview C n;
          inner_k = (if transA = PlasmaNoTrans then desc_n A else desc_m A)
      in if alpha = 0 \<or> inner_k = 0
         then [\<lparr> g_transA = transA, g_transB = transB,
                  g_m = mvcm, g_n = nvcn, g_k = 0,
                  g_alpha = alpha, g_A = (0, 0), g_lda = imax 1 (plasma_tile_mmain A 0),
                  g_B = (0, 0), g_ldb = imax 1 (plasma_tile_mmain B 0),
                  g_beta = beta, g_C = (m, n), g_ldc = ldcm \<rparr>]
         else if transA = PlasmaNoTrans
         then (let ldam = plasma_tile_mmain A m
               in if transB = PlasmaNoTrans
                  then map (\<lambda>k. \<lparr> g_transA = transA, g_transB = transB,
                                  g_m = mvcm, g_n = nvcn, g_k = plasma_tile_nview A k,
                                  g_alpha = alpha, g_A = (m, k), g_lda = ldam,
                                  g_B = (k, n), g_ldb = plasma_tile_mmain B k,
                                  g_beta = (if k = 0 then beta else 1),
                                  g_C = (m, n), g_ldc = ldcm \<rparr>) [0 .. nt A - 1]
                  else (let ldbn = plasma_tile_mmain B n
                        in map (\<lambda>k. \<lparr> g_transA = transA, g_transB = transB,
                                  g_m = mvcm, g_n = nvcn, g_k = plasma_tile_nview A k,
                                  g_alpha = alpha, g_A = (m, k), g_lda = ldam,
                                  g_B = (n, k), g_ldb = ldbn,
                                  g_beta = (if k = 0 then beta else 1),
                                  g_C = (m, n), g_ldc = ldcm \<rparr>) [0 .. nt A - 1]))
         else (if transB = PlasmaNoTrans
               then map (\<lambda>k. \<lparr> g_transA = transA, g_transB = transB,
                               g_m = mvcm, g_n = nvcn, g_k = plasma_tile_mview A k,
                               g_alpha = alpha, g_A = (k, m), g_lda = plasma_tile_mmain A k,
                               g_B = (k, n), g_ldb = plasma_tile_mmain B k,
                               g_beta = (if k = 0 then beta else 1),
                               g_C = (m, n), g_ldc = ldcm \<rparr>) [0 .. mt A - 1]
               else (let ldbn = plasma_tile_mmain B n
                     in map (\<lambda>k. \<lparr> g_transA = transA, g_transB = transB,
                               g_m = mvcm, g_n = nvcn, g_k = plasma_tile_mview A k,
                               g_alpha = alpha, g_A = (k, m), g_lda = plasma_tile_mmain A k,
                               g_B = (n, k), g_ldb = ldbn,
                               g_beta = (if k = 0 then beta else 1),
                               g_C = (m, n), g_ldc = ldcm \<rparr>) [0 .. mt A - 1])))"

text \<open>\<open>plasma_pzgemm\<close>: the statuses after the call and the submissions made, in
  submission order.\<close>

definition plasma_pzgemm ::
  "plasma_enum_t \<Rightarrow> plasma_enum_t \<Rightarrow> complex \<Rightarrow> plasma_desc_t \<Rightarrow> plasma_desc_t \<Rightarrow> complex
     \<Rightarrow> plasma_desc_t \<Rightarrow> plasma_sequence_t \<Rightarrow> plasma_request_t
     \<Rightarrow> (plasma_sequence_t \<times> plasma_request_t) \<times> zgemm_call list" where
  "plasma_pzgemm transA transB alpha A B beta C sequence request =
     (if seq_status sequence \<noteq> PlasmaSuccess
      then (plasma_request_fail sequence request PlasmaErrorSequence, [])
      else ((sequence, request),
            concat (map (\<lambda>m. concat (map (\<lambda>n. pzgemm_tile transA transB alpha A B beta C m n)
                                           [0 .. nt C - 1]))
                        [0 .. mt C - 1])))"

text \<open>The submissions of a list that update the tile \<open>C(m, n)\<close>.\<close>

definition zgemm_calls_on :: "zgemm_call list \<Rightarrow> int \<Rightarrow> int \<Rightarrow> zgemm_call list" where
  "zgemm_calls_on calls m n = filter (\<lambda>c. g_C c = (m, n)) calls"

text \<open>
  What a GEMM kernel with inner dimension \<open>k\<close> does to one entry \<open>c\<close> of the tile of
  \<open>C\<close>, the operation \<open>C := \<alpha>\<cdot>op(A)\<cdot>op(B) + \<beta>\<cdot>C\<close> of section 4.6.1: \<open>a\<close> is the row
  of \<open>op(A)\<close> and \<open>b\<close> the column of \<open>op(B)\<close> that meet at the entry.
\<close>

definition zgemm_entry ::
  "complex \<Rightarrow> complex \<Rightarrow> nat \<Rightarrow> (nat \<Rightarrow> complex) \<Rightarrow> (nat \<Rightarrow> complex) \<Rightarrow> complex \<Rightarrow> complex" where
  "zgemm_entry alpha beta k a b c = alpha * (\<Sum>l<k. a l * b l) + beta * c"

text \<open>
  Modelled from the spec: \<open>core_omp_zgemm\<close> is called by \<open>plasma_pzgemm\<close> and declared
  (as \<open>CORE_OMP_zgemm\<close>) in \<open>core_blas_z.h\<close>; its body is not part of the sources.
  Section 4.6.1: the kernel computes \<open>C := \<alpha>\<cdot>op(A)\<cdot>op(B) + \<beta>\<cdot>C\<close>; section 3.1: its shape
  arguments give the extent of the update. So the entries \<open>(r, s)\<close> of the tile of \<open>C\<close>
  with \<open>r < m\<close> and \<open>s < n\<close> are replaced, with inner dimension \<open>k\<close>, and every
  other entry of the tile is left as it is. A tile is a function from row and column
  to the entry; \<open>a\<close> and \<open>b\<close> are the tiles \<open>op(A)\<close> and \<open>op(B)\<close>, \<open>t\<close> the tile of
  \<open>C\<close> before the kernel runs.
\<close>

definition core_omp_zgemm ::
  "zgemm_call \<Rightarrow> (nat \<Rightarrow> nat \<Rightarrow> complex) \<Rightarrow> (nat \<Rightarrow> nat \<Rightarrow> complex) \<Rightarrow> (nat \<Rightarrow> nat \<Rightarrow> complex)
     \<Rightarrow> nat \<Rightarrow> nat \<Rightarrow> complex" where
  "core_omp_zgemm c a b t =
     (\<lambda>r s. if int r < g_m c \<and> int s < g_n c
            then zgemm_entry (g_alpha c) (g_beta c) (nat (g_k c)) (a r) (\<lambda>l. b l s) (t r s)
            else t r s)"

section \<open>Column-major blocks in arrays\<close>

text \<open>
  Arrays are lists; an access outside the array is undefined behaviour in C and is
  \<open>None\<close> here. \<open>copy_block m n src soff lds dst doff ldd\<close> copies the \<open>m\<close> by \<open>n\<close>
  column-major block that starts at index \<open>soff\<close> of \<open>src\<close> with leading dimension
  \<open>lds\<close> to the block that starts at index \<open>doff\<close> of \<open>dst\<close> with leading dimension
  \<open>ldd\<close>, column by column, as the LAPACK copy and conversion routines do.
\<close>

definition copy_elt :: "'a list \<Rightarrow> int \<Rightarrow> 'a list \<Rightarrow> int \<Rightarrow> 'a list option" where
  "copy_elt src si dst di =
     (if 0 \<le> si \<and> si < int (length src) \<and> 0 \<le> di \<and> di < int (length dst)
      then Some (dst [nat di := src ! nat si])
      else None)"

definition copy_column ::
  "int \<Rightarrow> 'a list \<Rightarrow> int \<Rightarrow> int \<Rightarrow> 'a list option \<Rightarrow> 'a list option" where
  "copy_column m src si di dst =
     fold (\<lambda>i acc. case acc of None \<Rightarrow> None | Some d \<Rightarrow> copy_elt src (si + i) d (di + i))
          [0 .. m - 1] dst"

definition copy_block ::
  "int \<Rightarrow> int \<Rightarrow> 'a list \<Rightarrow> int \<Rightarrow> int \<Rightarrow> 'a list \<Rightarrow> int \<Rightarrow> int \<Rightarrow> 'a list option" where
  "copy_block m n src soff lds dst doff ldd =
     fold (\<lambda>j acc. copy_column m src (soff + j * lds) (doff + j * ldd) acc)
          [0 .. n - 1] (Some dst)"

section \<open>Task bodies (core\_zpotrf.c, core\_clag2z.c)\<close>

text \<open>
  \<open>CORE_zpotrf\<close> passes its arguments to \<open>LAPACKE_zpotrf\<close>, which is outside the
  repository: it is a parameter that returns the updated tile and \<open>info\<close>.
\<close>

definition CORE_zpotrf ::
  "(plasma_enum_t \<Rightarrow> int \<Rightarrow> complex list \<Rightarrow> int \<Rightarrow> complex list \<times> int)
     \<Rightarrow> plasma_enum_t \<Rightarrow> int \<Rightarrow> complex list \<Rightarrow> int \<Rightarrow> complex list \<times> int" where
  "CORE_zpotrf LAPACKE_zpotrf uplo n A lda = LAPACKE_zpotrf uplo n A lda"

text \<open>
  The sum of two \<open>int\<close> values as the machine computes it: \<open>int\<close> has 32 bits, and a
  sum below \<open>-2^31\<close> or above \<open>2^31 - 1\<close> wraps around in two's complement (in C the
  overflow is undefined behaviour; this is the value the compiled code stores).
\<close>

definition int_add :: "int \<Rightarrow> int \<Rightarrow> int" where
  "int_add a b = (a + b + 2 ^ 31) mod 2 ^ 32 - 2 ^ 31"

text \<open>The body of the task submitted by \<open>CORE_OMP_zpotrf\<close>: the tile and the two
  statuses after the task has run. \<open>iinfo+info\<close> is a sum of two \<open>int\<close> values.\<close>

definition CORE_OMP_zpotrf ::
  "(plasma_enum_t \<Rightarrow> int \<Rightarrow> complex list \<Rightarrow> int \<Rightarrow> complex list \<times> int)
     \<Rightarrow> plasma_enum_t \<Rightarrow> int \<Rightarrow> complex list \<Rightarrow> int
     \<Rightarrow> plasma_sequence_t \<Rightarrow> plasma_request_t \<Rightarrow> int
     \<Rightarrow> complex list \<times> plasma_sequence_t \<times> plasma_request_t" where
  "CORE_OMP_zpotrf LAPACKE_zpotrf uplo n A lda sequence request iinfo =
     (if seq_status sequence = PlasmaSuccess
      then (case CORE_zpotrf LAPACKE_zpotrf uplo n A lda of
              (A', info) \<Rightarrow>
                if info \<noteq> 0
                then (case plasma_request_fail sequence request (int_add iinfo info) of
                        (sequence', request') \<Rightarrow> (A', sequence', request'))
                else (A', sequence, request))
      else (A, sequence, request))"

text \<open>
  Single and double precision arrays differ in the size of their entries, and the task
  body of \<open>core_omp_clag2z\<close> passes an array of one kind where the callee expects the
  other. Memory is therefore a list of cells of four bytes. A single precision number
  fills one cell; a double precision number fills two, its low half and its high
  half. A \<open>plasma_complex32_t\<close> is two single precision numbers, the real part first
  (two cells); a \<open>plasma_complex64_t\<close> is two double precision numbers (four cells).
  The numbers are the real numbers they denote.
\<close>

datatype cell = Single real | Double_lo real | Double_hi real

text \<open>
  What the number format (IEEE 754) fixes and the sources do not: the number obtained
  when cells are read at a type they were not written at, the rounding of a double
  precision number to single precision, and the largest single precision number.
  These are parameters.
\<close>

record fp_format =
  cells_as_double :: "cell \<Rightarrow> cell \<Rightarrow> real"
  cell_as_single :: "cell \<Rightarrow> real"
  to_single :: "real \<Rightarrow> real"
  single_max :: real

text \<open>Reading and writing a \<open>float\<close> at cell \<open>k\<close> and a \<open>double\<close> at cells \<open>k\<close>
  and \<open>k + 1\<close>; an access outside the array is undefined behaviour (\<open>None\<close>).\<close>

definition load_single :: "fp_format \<Rightarrow> cell list \<Rightarrow> int \<Rightarrow> real option" where
  "load_single fmt mem k =
     (if 0 \<le> k \<and> k < int (length mem)
      then Some (case mem ! nat k of Single x \<Rightarrow> x | c \<Rightarrow> cell_as_single fmt c)
      else None)"

definition load_double :: "fp_format \<Rightarrow> cell list \<Rightarrow> int \<Rightarrow> real option" where
  "load_double fmt mem k =
     (if 0 \<le> k \<and> k + 1 < int (length mem)
      then Some (case (mem ! nat k, mem ! nat (k + 1)) of
                   (Double_lo x, Double_hi y) \<Rightarrow>
                     if x = y then x
                     else cells_as_double fmt (Double_lo x) (Double_hi y)
                 | (c, d) \<Rightarrow> cells_as_double fmt c d)
      else None)"

definition store_single :: "cell list \<Rightarrow> int \<Rightarrow> real \<Rightarrow> cell list option" where
  "store_single mem k x =
     (if 0 \<le> k \<and> k < int (length mem) then Some (mem [nat k := Single x]) else None)"

definition store_double :: "cell list \<Rightarrow> int \<Rightarrow> real \<Rightarrow> cell list option" where
  "store_double mem k x =
     (if 0 \<le> k \<and> k + 1 < int (length mem)
      then Some (mem [nat k := Double_lo x, nat (k + 1) := Double_hi x])
      else None)"

text \<open>
  \<open>LAPACKE_clag2z_work\<close> is outside the repository. For column-major arrays it is the
  LAPACK routine CLAG2Z: for every column \<open>j < n\<close> and every row \<open>i < m\<close>, in that
  order, the entry \<open>i + j\<cdot>ldsa\<close> of the single precision complex array \<open>SA\<close> is
  stored, widened, in the entry \<open>i + j\<cdot>lda\<close> of the double precision complex array
  \<open>A\<close>. Every single precision number is a double precision number: widening does
  not change the number. The result is the array \<open>A\<close> after the call.
\<close>

definition clag2z_entry ::
  "fp_format \<Rightarrow> cell list \<Rightarrow> int \<Rightarrow> int \<Rightarrow> cell list option \<Rightarrow> cell list option" where
  "clag2z_entry fmt SA si di acc =
     (case acc of
        None \<Rightarrow> None
      | Some A \<Rightarrow>
          (case load_single fmt SA (2 * si) of
             None \<Rightarrow> None
           | Some re \<Rightarrow>
               (case load_single fmt SA (2 * si + 1) of
                  None \<Rightarrow> None
                | Some im \<Rightarrow>
                    (case store_double A (4 * di) re of
                       None \<Rightarrow> None
                     | Some A' \<Rightarrow> store_double A' (4 * di + 2) im))))"

definition LAPACKE_clag2z_work ::
  "fp_format \<Rightarrow> int \<Rightarrow> int \<Rightarrow> cell list \<Rightarrow> int \<Rightarrow> cell list \<Rightarrow> int \<Rightarrow> cell list option" where
  "LAPACKE_clag2z_work fmt m n SA ldsa A lda =
     fold (\<lambda>j acc. fold (\<lambda>i. clag2z_entry fmt SA (i + j * ldsa) (i + j * lda)) [0 .. m - 1] acc)
          [0 .. n - 1] (Some A)"

text \<open>\<open>core_clag2z\<close>: the array \<open>A\<close> after the call; \<open>sequence\<close> and \<open>request\<close> are not
  used.\<close>

definition core_clag2z ::
  "fp_format \<Rightarrow> int \<Rightarrow> int \<Rightarrow> cell list \<Rightarrow> int \<Rightarrow> cell list \<Rightarrow> int
     \<Rightarrow> plasma_sequence_t \<Rightarrow> plasma_request_t \<Rightarrow> cell list option" where
  "core_clag2z fmt m n As ldas A lda sequence request =
     LAPACKE_clag2z_work fmt m n As ldas A lda"

text \<open>
  \<open>LAPACKE_zlag2c_work\<close> for column-major arrays is the LAPACK routine ZLAG2C, the
  conversion in the opposite direction: for every column \<open>j < n\<close> and every row
  \<open>i < m\<close>, in that order, the entry \<open>i + j\<cdot>lda\<close> of the double precision complex
  array \<open>A\<close> is read; if its real or its imaginary part is outside the range of
  single precision the routine stops with \<open>info = 1\<close>, otherwise the entry is stored,
  rounded, in the entry \<open>i + j\<cdot>ldsa\<close> of the single precision complex array \<open>SA\<close>.
  The result is the array \<open>SA\<close> and \<open>info\<close> after the call.
\<close>

definition zlag2c_entry ::
  "fp_format \<Rightarrow> cell list \<Rightarrow> int \<Rightarrow> int \<Rightarrow> (cell list \<times> int) option
     \<Rightarrow> (cell list \<times> int) option" where
  "zlag2c_entry fmt A si di acc =
     (case acc of
        None \<Rightarrow> None
      | Some (SA, info) \<Rightarrow>
          if info \<noteq> 0 then Some (SA, info)
          else
            (case load_double fmt A (4 * si) of
               None \<Rightarrow> None
             | Some re \<Rightarrow>
                 (case load_double fmt A (4 * si + 2) of
                    None \<Rightarrow> None
                  | Some im \<Rightarrow>
                      if re < - single_max fmt \<or> single_max fmt < re
                         \<or> im < - single_max fmt \<or> single_max fmt < im
                      then Some (SA, 1)
                      else
                        (case store_single SA (2 * di) (to_single fmt re) of
                           None \<Rightarrow> None
                         | Some SA' \<Rightarrow>
                             (case store_single SA' (2 * di + 1) (to_single fmt im) of
                                None \<Rightarrow> None
                              | Some SA'' \<Rightarrow> Some (SA'', 0))))))"

definition LAPACKE_zlag2c_work ::
  "fp_format \<Rightarrow> int \<Rightarrow> int \<Rightarrow> cell list \<Rightarrow> int \<Rightarrow> cell list \<Rightarrow> int
     \<Rightarrow> (cell list \<times> int) option" where
  "LAPACKE_zlag2c_work fmt m n A lda SA ldsa =
     fold (\<lambda>j acc. fold (\<lambda>i. zlag2c_entry fmt A (i + j * lda) (i + j * ldsa)) [0 .. m - 1] acc)
          [0 .. n - 1] (Some (SA, 0))"

text \<open>
  Modelled from the spec: \<open>core_zlag2c\<close> is called by the task body of
  \<open>core_omp_clag2z\<close> and is not part of the sources. Section 1 of the spec treats the
  single-tile kernels as correct implementations reached through a BLAS/LAPACK
  binding, of which only the interface and the effect on tile memory matter. The
  kernel of this name is the counterpart of \<open>core_clag2z\<close> in the pair of conversions
  generated from one template (the file is marked \<open>precisions mixed zc -> ds\<close>): it
  takes the double precision array first and the single precision array second, and
  it is modelled as \<open>core_clag2z\<close> is written, as the call of the LAPACK routine of its
  name, with \<open>sequence\<close> and \<open>request\<close> not used. The result is the single precision
  array after the call.
\<close>

definition core_zlag2c ::
  "fp_format \<Rightarrow> int \<Rightarrow> int \<Rightarrow> cell list \<Rightarrow> int \<Rightarrow> cell list \<Rightarrow> int
     \<Rightarrow> plasma_sequence_t \<Rightarrow> plasma_request_t \<Rightarrow> cell list option" where
  "core_zlag2c fmt m n A lda As ldas sequence request =
     map_option fst (LAPACKE_zlag2c_work fmt m n A lda As ldas)"

text \<open>
  The body of the task submitted by \<open>core_omp_clag2z\<close>: the array \<open>A\<close> after the task
  has run. The body is the single statement
  \<open>core_zlag2c(m, n, As, ldas, A, lda, sequence, request)\<close>: the single precision
  array \<open>As\<close> is the first array argument of \<open>core_zlag2c\<close> and the double precision
  array \<open>A\<close> the second.
\<close>

definition core_omp_clag2z ::
  "fp_format \<Rightarrow> int \<Rightarrow> int \<Rightarrow> cell list \<Rightarrow> int \<Rightarrow> cell list \<Rightarrow> int
     \<Rightarrow> plasma_sequence_t \<Rightarrow> plasma_request_t \<Rightarrow> cell list option" where
  "core_omp_clag2z fmt m n As ldas A lda sequence request =
     core_zlag2c fmt m n As ldas A lda sequence request"

section \<open>Triangular multiply, tile interface (ztrmm.c)\<close>

text \<open>
  \<open>plasma_request_fail\<close> applied to the two pointers of an entry point: a null pointer
  (\<open>None\<close>) is dereferenced, which is undefined behaviour (\<open>None\<close>). The result of an
  entry point is the two statuses and the list of tasks it has submitted.
\<close>

definition request_fail_ptr ::
  "plasma_sequence_t option \<Rightarrow> plasma_request_t option \<Rightarrow> int
     \<Rightarrow> (plasma_sequence_t \<times> plasma_request_t \<times> 'task list) option" where
  "request_fail_ptr sequence request err =
     (case sequence of
        None \<Rightarrow> None
      | Some s \<Rightarrow>
          (case request of
             None \<Rightarrow> None
           | Some r \<Rightarrow>
               (case plasma_request_fail s r err of (s', r') \<Rightarrow> Some (s', r', []))))"

text \<open>
  \<open>PLASMA_ztrmm_Tile_Async\<close>. \<open>plasma\<close> is the result of \<open>plasma_context_self()\<close>;
  \<open>plasma_desc_check\<close> and \<open>plasma_pztrmm\<close> are not part of the sources and are
  parameters: the first returns a status, the second the statuses and the tasks it
  submits.
\<close>

definition PLASMA_ztrmm_Tile_Async ::
  "unit option \<Rightarrow> (plasma_desc_t \<Rightarrow> int)
     \<Rightarrow> (plasma_enum_t \<Rightarrow> plasma_enum_t \<Rightarrow> plasma_enum_t \<Rightarrow> plasma_enum_t \<Rightarrow> complex
          \<Rightarrow> plasma_desc_t \<Rightarrow> plasma_desc_t \<Rightarrow> plasma_sequence_t \<Rightarrow> plasma_request_t
          \<Rightarrow> plasma_sequence_t \<times> plasma_request_t \<times> 'task list)
     \<Rightarrow> plasma_enum_t \<Rightarrow> plasma_enum_t \<Rightarrow> plasma_enum_t \<Rightarrow> plasma_enum_t \<Rightarrow> complex
     \<Rightarrow> plasma_desc_t \<Rightarrow> plasma_desc_t \<Rightarrow> plasma_sequence_t option \<Rightarrow> plasma_request_t option
     \<Rightarrow> (plasma_sequence_t \<times> plasma_request_t \<times> 'task list) option" where
  "PLASMA_ztrmm_Tile_Async plasma plasma_desc_check plasma_pztrmm
       side uplo transA diag alpha A B sequence request =
     (if plasma = None
      then request_fail_ptr sequence request PlasmaErrorIllegalValue
      else if sequence = None
      then request_fail_ptr sequence request PlasmaErrorIllegalValue
      else if request = None
      then request_fail_ptr sequence request PlasmaErrorIllegalValue
      else if seq_status (the sequence) \<noteq> PlasmaSuccess
      then request_fail_ptr sequence request PlasmaErrorSequence
      else if plasma_desc_check A \<noteq> PlasmaSuccess
      then request_fail_ptr sequence request PlasmaErrorIllegalValue
      else if plasma_desc_check B \<noteq> PlasmaSuccess
      then request_fail_ptr sequence request PlasmaErrorIllegalValue
      else if nb A \<noteq> mb A \<or> nb B \<noteq> mb B
      then request_fail_ptr sequence request PlasmaErrorIllegalValue
      else if side \<noteq> PlasmaLeft \<and> side \<noteq> PlasmaRight
      then request_fail_ptr sequence request PlasmaErrorIllegalValue
      else if uplo \<noteq> PlasmaUpper \<and> uplo \<noteq> PlasmaLower
      then request_fail_ptr sequence request PlasmaErrorIllegalValue
      else if transA \<noteq> PlasmaConjTrans \<and> transA \<noteq> PlasmaNoTrans \<and> transA \<noteq> PlasmaTrans
      then request_fail_ptr sequence request PlasmaErrorIllegalValue
      else if diag \<noteq> PlasmaUnit \<and> diag \<noteq> PlasmaNonUnit
      then request_fail_ptr sequence request PlasmaErrorIllegalValue
      else if desc_m A = 0 \<or> desc_n A = 0 \<or> alpha = 0 \<or> desc_m B = 0 \<or> desc_n B = 0
      then Some (the sequence, the request, [])
      else Some (plasma_pztrmm side uplo transA diag alpha A B (the sequence) (the request)))"

text \<open>Tile memory changes only when a submitted task runs: \<open>run_tasks exec tasks mem\<close>
  is the memory after the submitted tasks have run in submission order.\<close>

definition run_tasks :: "('task \<Rightarrow> 'mem \<Rightarrow> 'mem) \<Rightarrow> 'task list \<Rightarrow> 'mem \<Rightarrow> 'mem" where
  "run_tasks exec tasks mem = fold exec tasks mem"

text \<open>
  Modelled from the spec: \<open>plasma_desc_check\<close> is called by the entry point and is not
  part of the sources. Section 4.1: \<open>check(desc)\<close> validates the invariants; section
  3.1 lists them: \<open>mb \<ge> 1\<close>, \<open>nb \<ge> 1\<close>, \<open>0 \<le> i\<close>, \<open>0 \<le> j\<close>, \<open>i + m \<le> lm\<close>,
  \<open>j + n \<le> ln\<close>. A descriptor that violates one is an illegal value. It is the check
  used where a concrete one is needed; \<open>PLASMA_ztrmm_Tile_Async\<close> above takes the
  check as a parameter.
\<close>

definition desc_check :: "plasma_desc_t \<Rightarrow> int" where
  "desc_check A =
     (if 1 \<le> mb A \<and> 1 \<le> nb A \<and> 0 \<le> desc_i A \<and> 0 \<le> desc_j A
         \<and> desc_i A + desc_m A \<le> lm A \<and> desc_j A + desc_n A \<le> ln A
      then PlasmaSuccess else PlasmaErrorIllegalValue)"

section \<open>Sum of squares of a symmetric matrix (core\_zsyssq.c)\<close>

text \<open>
  The arithmetic of \<open>double\<close> is a parameter: the type \<open>'f\<close> of the double precision
  values (infinities and NaN included) with the constants and operations that the
  file uses. Nothing is assumed of them, so what is proved of the functions below
  holds for the rounded operations of the machine. \<open>d_cabs re im\<close> is \<open>cabs\<close> of the
  complex number with these parts.
\<close>

record 'f double_ops =
  d_zero :: 'f
  d_one :: 'f
  d_two :: 'f
  d_add :: "'f \<Rightarrow> 'f \<Rightarrow> 'f"
  d_mul :: "'f \<Rightarrow> 'f \<Rightarrow> 'f"
  d_div :: "'f \<Rightarrow> 'f \<Rightarrow> 'f"
  d_sqrt :: "'f \<Rightarrow> 'f"
  d_less :: "'f \<Rightarrow> 'f \<Rightarrow> bool"
  d_neq :: "'f \<Rightarrow> 'f \<Rightarrow> bool"
  d_cabs :: "'f \<Rightarrow> 'f \<Rightarrow> 'f"

text \<open>
  The body of the loop over the diagonal in \<open>core_zsyssq\<close>, for the entry at index
  \<open>idx = lda\<cdot>i + i\<close>. An entry of \<open>A\<close> is a \<open>plasma_complex64_t\<close>, the pair of its real
  and its imaginary part; the cast \<open>(double)A[idx]\<close> of a complex number is its real
  part.
\<close>

definition zsyssq_diag ::
  "'f double_ops \<Rightarrow> ('f \<times> 'f) list \<Rightarrow> int \<Rightarrow> 'f \<times> 'f \<Rightarrow> 'f \<times> 'f" where
  "zsyssq_diag ops A idx acc =
     (case acc of (scale, sumsq) \<Rightarrow>
        if d_neq ops (fst (A ! nat idx)) (d_zero ops)
        then (let absa = d_cabs ops (fst (A ! nat idx)) (snd (A ! nat idx))
              in if d_less ops scale absa
                 then (absa,
                       d_add ops (d_one ops)
                         (d_mul ops sumsq (d_mul ops (d_div ops scale absa) (d_div ops scale absa))))
                 else (scale,
                       d_add ops sumsq (d_mul ops (d_div ops absa scale) (d_div ops absa scale))))
        else (scale, sumsq))"

text \<open>
  \<open>core_zsyssq\<close>: the values of \<open>*scale\<close> and \<open>*sumsq\<close> after the call.
  \<open>LAPACK_zlassq\<close> is outside the repository and is a parameter: called with the
  length, the array and the index of the first entry of the vector, the increment and
  the running pair, it returns the updated pair.
\<close>

definition core_zsyssq ::
  "'f double_ops \<Rightarrow> (int \<Rightarrow> ('f \<times> 'f) list \<Rightarrow> int \<Rightarrow> int \<Rightarrow> 'f \<times> 'f \<Rightarrow> 'f \<times> 'f)
     \<Rightarrow> plasma_enum_t \<Rightarrow> int \<Rightarrow> ('f \<times> 'f) list \<Rightarrow> int \<Rightarrow> 'f \<times> 'f \<Rightarrow> 'f \<times> 'f" where
  "core_zsyssq ops LAPACK_zlassq uplo n A lda acc =
     (case (if uplo = PlasmaUpper
            then fold (\<lambda>j. LAPACK_zlassq j A (lda * j) 1) [1 .. n - 1] acc
            else fold (\<lambda>j. LAPACK_zlassq (n - j - 1) A (lda * j + j + 1) 1) [0 .. n - 2] acc) of
        (scale, sumsq) \<Rightarrow>
          fold (\<lambda>i. zsyssq_diag ops A (lda * i + i)) [0 .. n - 1]
               (scale, d_mul ops sumsq (d_two ops)))"

text \<open>The body of the task submitted by \<open>core_omp_zsyssq\<close>: the values of \<open>*scale\<close> and
  \<open>*sumsq\<close> after the task has run.\<close>

definition core_omp_zsyssq ::
  "'f double_ops \<Rightarrow> (int \<Rightarrow> ('f \<times> 'f) list \<Rightarrow> int \<Rightarrow> int \<Rightarrow> 'f \<times> 'f \<Rightarrow> 'f \<times> 'f)
     \<Rightarrow> plasma_enum_t \<Rightarrow> int \<Rightarrow> ('f \<times> 'f) list \<Rightarrow> int \<Rightarrow> 'f \<Rightarrow> 'f
     \<Rightarrow> plasma_sequence_t \<Rightarrow> 'f \<times> 'f" where
  "core_omp_zsyssq ops LAPACK_zlassq uplo n A lda scale sumsq sequence =
     (if seq_status sequence = PlasmaSuccess
      then core_zsyssq ops LAPACK_zlassq uplo n A lda (d_zero ops, d_one ops)
      else (scale, sumsq))"

text \<open>
  One step of the two loops of \<open>core_omp_zsyssq_aux\<close>: the pair
  \<open>(scale[idx], sumsq[idx])\<close> is merged into the running pair \<open>(scl, sum)\<close>; the
  variable \<open>sum\<close> of the source is \<open>ssum\<close>.
\<close>

definition ssq_update ::
  "'f double_ops \<Rightarrow> 'f list \<Rightarrow> 'f list \<Rightarrow> int \<Rightarrow> 'f \<times> 'f \<Rightarrow> 'f \<times> 'f" where
  "ssq_update ops scale sumsq idx acc =
     (case acc of (scl, ssum) \<Rightarrow>
        if d_less ops scl (scale ! nat idx)
        then (scale ! nat idx,
              d_add ops (sumsq ! nat idx)
                (d_mul ops ssum (d_mul ops (d_div ops scl (scale ! nat idx))
                                           (d_div ops scl (scale ! nat idx)))))
        else (scl,
              d_add ops ssum
                (d_mul ops (sumsq ! nat idx) (d_mul ops (d_div ops (scale ! nat idx) scl)
                                                        (d_div ops (scale ! nat idx) scl)))))"

text \<open>The body of the task submitted by \<open>core_omp_zsyssq_aux\<close>: the content of \<open>*value\<close>
  after the task has run.\<close>

definition core_omp_zsyssq_aux ::
  "'f double_ops \<Rightarrow> int \<Rightarrow> int \<Rightarrow> 'f list \<Rightarrow> 'f list \<Rightarrow> 'f \<Rightarrow> plasma_sequence_t \<Rightarrow> 'f" where
  "core_omp_zsyssq_aux ops m n scale sumsq val sequence =
     (if seq_status sequence = PlasmaSuccess
      then (case fold (\<lambda>j acc. fold (\<lambda>i. ssq_update ops scale sumsq (m * j + i))
                                     [j + 1 .. n - 1] acc)
                      [0 .. n - 1] (d_zero ops, d_one ops) of
              (scl, ssum) \<Rightarrow>
                (case fold (\<lambda>j. ssq_update ops scale sumsq (m * j + j)) [0 .. n - 1]
                           (scl, d_mul ops (d_two ops) ssum) of
                   (scl', ssum') \<Rightarrow> d_mul ops scl' (d_sqrt ops ssum')))
      else val)"

text \<open>
  The rule of section 4.6.7 of the spec for merging a pair \<open>(a, sumsq_a)\<close> into the
  running pair \<open>(scl, sum)\<close>, in the words of the spec: if \<open>scl < a\<close>, \<open>sum\<close> becomes
  \<open>sumsq_a + sum\<cdot>(scl/a)\<^sup>2\<close> and \<open>scl\<close> becomes \<open>a\<close>; else \<open>sum\<close> becomes
  \<open>sum + sumsq_a\<cdot>(a/scl)\<^sup>2\<close>. A square is the product of the number with itself.
\<close>

definition ssq_merge :: "'f double_ops \<Rightarrow> 'f \<times> 'f \<Rightarrow> 'f \<times> 'f \<Rightarrow> 'f \<times> 'f" where
  "ssq_merge ops pair acc =
     (case pair of (a, sumsq_a) \<Rightarrow>
        (case acc of (scl, ssum) \<Rightarrow>
           if d_less ops scl a
           then (a, d_add ops sumsq_a (d_mul ops ssum (d_mul ops (d_div ops scl a) (d_div ops scl a))))
           else (scl, d_add ops ssum (d_mul ops sumsq_a (d_mul ops (d_div ops a scl) (d_div ops a scl))))))"

text \<open>
  The reduction of the spec: starting from \<open>(0, 1)\<close> the pairs of the off-diagonal
  tiles are merged, the sum is doubled (weight 2), the pairs of the diagonal tiles
  are merged (weight 1), and the value is \<open>scl\<cdot>\<surd>sum\<close>.
\<close>

definition ssq_reduce :: "'f double_ops \<Rightarrow> ('f \<times> 'f) list \<Rightarrow> ('f \<times> 'f) list \<Rightarrow> 'f" where
  "ssq_reduce ops off diag =
     (case fold (ssq_merge ops) off (d_zero ops, d_one ops) of
        (scl, ssum) \<Rightarrow>
          (case fold (ssq_merge ops) diag (scl, d_mul ops (d_two ops) ssum) of
             (scl', ssum') \<Rightarrow> d_mul ops scl' (d_sqrt ops ssum')))"

text \<open>
  The arithmetic of the real numbers, an instance of the parameter used to evaluate
  the functions on inputs where no operation rounds and nothing is divided by zero.
\<close>

definition real_ops :: "real double_ops" where
  "real_ops =
     \<lparr> d_zero = 0, d_one = 1, d_two = 2,
       d_add = (\<lambda>x y. x + y), d_mul = (\<lambda>x y. x * y), d_div = (\<lambda>x y. x / y),
       d_sqrt = sqrt, d_less = (\<lambda>x y. x < y), d_neq = (\<lambda>x y. x \<noteq> y),
       d_cabs = (\<lambda>re im. sqrt (re * re + im * im)) \<rparr>"

section \<open>Layout translation (pdge2desc.c)\<close>

text \<open>
  The tiles of a descriptor are addressed in bytes. \<open>plasma_pdge2desc\<close> casts the tile
  address to \<open>double *\<close>: \<open>tile_index\<close> is the index of the first element of the tile
  in the backing store seen as an array of \<open>double\<close>.
\<close>

definition tile_index :: "plasma_desc_t \<Rightarrow> int \<Rightarrow> int \<Rightarrow> int option" where
  "tile_index A m n =
     (case plasma_tile_addr A m n of
        None \<Rightarrow> None
      | Some addr \<Rightarrow> Some ((addr - matrix A) sdiv 8))"

text \<open>
  Modelled from the spec: \<open>core_omp_dlacpy\<close> is called by \<open>plasma_pdge2desc\<close> but not
  defined in the sources. Section 4.4: each tile copy is a task that copies the
  subblock; section 4.2: every task body tests the status of the sequence first. The
  source block starts at index \<open>aoff\<close> of \<open>A\<close>, the destination block at index \<open>boff\<close>
  of \<open>B\<close>; the result is the destination array.
\<close>

definition core_omp_dlacpy ::
  "plasma_enum_t \<Rightarrow> int \<Rightarrow> int \<Rightarrow> 'a list \<Rightarrow> int \<Rightarrow> int \<Rightarrow> 'a list \<Rightarrow> int \<Rightarrow> int
     \<Rightarrow> plasma_sequence_t \<Rightarrow> plasma_request_t \<Rightarrow> 'a list option" where
  "core_omp_dlacpy uplo m n A aoff lda B boff ldb sequence request =
     (if seq_status sequence = PlasmaSuccess
      then copy_block m n A aoff lda B boff ldb
      else Some B)"

text \<open>The body of the two loops of \<open>plasma_pdge2desc\<close> for the tile \<open>(m, n)\<close>: the
  backing store of the tiles after the copy task of that tile.\<close>

definition pdge2desc_tile ::
  "'a list \<Rightarrow> int \<Rightarrow> plasma_desc_t \<Rightarrow> plasma_sequence_t \<Rightarrow> plasma_request_t
     \<Rightarrow> int \<Rightarrow> int \<Rightarrow> 'a list \<Rightarrow> 'a list option" where
  "pdge2desc_tile pA lda A sequence request m n tiles =
     (let ldt = plasma_tile_mmain A m;
          x1 = (if n = 0 then desc_j A smod nb A else 0);
          y1 = (if m = 0 then desc_i A smod mb A else 0);
          x2 = (if n = nt A - 1 then (desc_j A + desc_n A - 1) smod nb A + 1 else nb A);
          y2 = (if m = mt A - 1 then (desc_i A + desc_m A - 1) smod mb A + 1 else mb A);
          f77 = nb A * lda * n + mb A * m
      in case tile_index A m n of
           None \<Rightarrow> None
         | Some bdl \<Rightarrow>
             core_omp_dlacpy PlasmaGeneral (y2 - y1) (x2 - x1)
               pA (f77 + (x1 * lda + y1)) lda
               tiles (bdl + (x1 * nb A + y1)) ldt
               sequence request)"

text \<open>\<open>plasma_pdge2desc\<close>, the translation \<open>cm2ccrb\<close>: the backing store of the tiles
  after the copy tasks have run in submission order.\<close>

definition plasma_pdge2desc ::
  "'a list \<Rightarrow> int \<Rightarrow> plasma_desc_t \<Rightarrow> plasma_sequence_t \<Rightarrow> plasma_request_t
     \<Rightarrow> 'a list \<Rightarrow> 'a list option" where
  "plasma_pdge2desc pA lda A sequence request tiles =
     (if seq_status sequence \<noteq> PlasmaSuccess
      then Some tiles
      else fold (\<lambda>m acc.
                   fold (\<lambda>n acc'. case acc' of
                                     None \<Rightarrow> None
                                   | Some t \<Rightarrow> pdge2desc_tile pA lda A sequence request m n t)
                        [0 .. nt A - 1] acc)
                [0 .. mt A - 1] (Some tiles))"

text \<open>
  Modelled from the spec: the translation \<open>ccrb2cm\<close> (\<open>plasma_pddesc2ge\<close>) is not part
  of the sources. Section 4.4 defines it as the inverse direction of \<open>cm2ccrb\<close>: for
  each tile the same subblock, with the same edge ranges and the same place in the
  tile, is copied from the tile to \<open>pA\<close>.
\<close>

definition pddesc2ge_tile ::
  "plasma_desc_t \<Rightarrow> 'a list \<Rightarrow> int \<Rightarrow> plasma_sequence_t \<Rightarrow> plasma_request_t
     \<Rightarrow> int \<Rightarrow> int \<Rightarrow> 'a list \<Rightarrow> 'a list option" where
  "pddesc2ge_tile A tiles lda sequence request m n pA =
     (let ldt = plasma_tile_mmain A m;
          x1 = (if n = 0 then desc_j A smod nb A else 0);
          y1 = (if m = 0 then desc_i A smod mb A else 0);
          x2 = (if n = nt A - 1 then (desc_j A + desc_n A - 1) smod nb A + 1 else nb A);
          y2 = (if m = mt A - 1 then (desc_i A + desc_m A - 1) smod mb A + 1 else mb A);
          f77 = nb A * lda * n + mb A * m
      in case tile_index A m n of
           None \<Rightarrow> None
         | Some bdl \<Rightarrow>
             core_omp_dlacpy PlasmaGeneral (y2 - y1) (x2 - x1)
               tiles (bdl + (x1 * nb A + y1)) ldt
               pA (f77 + (x1 * lda + y1)) lda
               sequence request)"

definition plasma_pddesc2ge ::
  "plasma_desc_t \<Rightarrow> 'a list \<Rightarrow> int \<Rightarrow> plasma_sequence_t \<Rightarrow> plasma_request_t
     \<Rightarrow> 'a list \<Rightarrow> 'a list option" where
  "plasma_pddesc2ge A tiles lda sequence request pA =
     (if seq_status sequence \<noteq> PlasmaSuccess
      then Some pA
      else fold (\<lambda>m acc.
                   fold (\<lambda>n acc'. case acc' of
                                     None \<Rightarrow> None
                                   | Some p \<Rightarrow> pddesc2ge_tile A tiles lda sequence request m n p)
                        [0 .. nt A - 1] acc)
                [0 .. mt A - 1] (Some pA))"

text \<open>The round trip: \<open>pA\<close> is translated into the backing store \<open>tiles\<close>, and the
  result is translated back into the array \<open>pB\<close>.\<close>

definition layout_round_trip ::
  "'a list \<Rightarrow> int \<Rightarrow> plasma_desc_t \<Rightarrow> plasma_sequence_t \<Rightarrow> plasma_request_t
     \<Rightarrow> 'a list \<Rightarrow> 'a list \<Rightarrow> 'a list option" where
  "layout_round_trip pA lda A sequence request tiles pB =
     (case plasma_pdge2desc pA lda A sequence request tiles of
        None \<Rightarrow> None
      | Some tiles' \<Rightarrow> plasma_pddesc2ge A tiles' lda sequence request pB)"

section \<open>Tiles and the backing store\<close>

text \<open>
  The invariants of section 3.1 for a general descriptor, with the derived fields as
  \<open>plasma_desc_general_init\<close> sets them, and with sizes for which the \<open>int\<close> and
  \<open>size_t\<close> arithmetic of \<open>plasma_tile_addr_general\<close> does not overflow.
\<close>

definition desc_general_valid :: "plasma_desc_t \<Rightarrow> bool" where
  "desc_general_valid A =
     (1 \<le> mb A \<and> 1 \<le> nb A \<and> 0 \<le> lm A \<and> 0 \<le> ln A
      \<and> 0 \<le> desc_i A \<and> 0 \<le> desc_j A \<and> 0 \<le> desc_m A \<and> 0 \<le> desc_n A
      \<and> desc_i A + desc_m A \<le> lm A \<and> desc_j A + desc_n A \<le> ln A
      \<and> mb A * nb A < 2 ^ 31 \<and> lm A < 2 ^ 31 \<and> ln A < 2 ^ 31 \<and> lm A * ln A * 16 < 2 ^ 64
      \<and> plasma_element_size (precision A) \<noteq> None
      \<and> A = plasma_desc_general_init (precision A) (matrix A) (mb A) (nb A) (lm A) (ln A)
              (desc_i A) (desc_j A) (desc_m A) (desc_n A))"

text \<open>The elements of tile \<open>(m, n)\<close>, as indices into the backing store: the tile is
  stored contiguously with its storage height and width.\<close>

definition tile_elems :: "plasma_desc_t \<Rightarrow> int \<Rightarrow> int \<Rightarrow> int set" where
  "tile_elems A m n =
     {tile_offset_general A m n ..<
      tile_offset_general A m n + plasma_tile_mmain A m * plasma_tile_nmain A n}"

text \<open>The bytes of tile \<open>(m, n)\<close>, starting at \<open>plasma_tile_addr\<close>.\<close>

definition tile_bytes :: "plasma_desc_t \<Rightarrow> int \<Rightarrow> int \<Rightarrow> int set" where
  "tile_bytes A m n =
     (case plasma_tile_addr A m n of
        None \<Rightarrow> {}
      | Some addr \<Rightarrow>
          (case plasma_element_size (precision A) of
             None \<Rightarrow> {}
           | Some eltsize \<Rightarrow>
               {addr ..< addr + plasma_tile_mmain A m * plasma_tile_nmain A n * eltsize}))"

text \<open>
  Modelled from the spec: the allocation in \<open>plasma_desc_general_create\<close> is not part
  of the sources. Section 4.1: a contiguous backing store sized to the four zones,
  that is \<open>lm \<cdot> ln\<close> elements from \<open>matrix\<close>.
\<close>

definition backing_store :: "plasma_desc_t \<Rightarrow> int set" where
  "backing_store A =
     (case plasma_element_size (precision A) of
        None \<Rightarrow> {}
      | Some eltsize \<Rightarrow> {matrix A ..< matrix A + lm A * ln A * eltsize})"

text \<open>The tile indices of the view, \<open>[0, mt) \<times> [0, nt)\<close>, and the tile indices that
  address a tile of the whole tile grid of \<open>lmt\<close> by \<open>lnt\<close> tiles.\<close>

definition in_view :: "plasma_desc_t \<Rightarrow> int \<Rightarrow> int \<Rightarrow> bool" where
  "in_view A m n = (0 \<le> m \<and> m < mt A \<and> 0 \<le> n \<and> n < nt A)"

definition in_grid :: "plasma_desc_t \<Rightarrow> int \<Rightarrow> int \<Rightarrow> bool" where
  "in_grid A m n =
     (0 \<le> m + desc_i A sdiv mb A \<and> m + desc_i A sdiv mb A < lmt A
      \<and> 0 \<le> n + desc_j A sdiv nb A \<and> n + desc_j A sdiv nb A < lnt A)"

section \<open>Concrete inputs\<close>

definition ok_sequence :: plasma_sequence_t where
  "ok_sequence = \<lparr> seq_status = PlasmaSuccess \<rparr>"

definition ok_request :: plasma_request_t where
  "ok_request = \<lparr> req_status = PlasmaSuccess \<rparr>"


text \<open>The descriptor of the 7 by 9 matrix \<open>C\<close> of scenario 1 of section 8, with
  \<open>nb = 4\<close>.\<close>

definition gemm_C :: plasma_desc_t where
  "gemm_C = plasma_desc_general_init PlasmaComplexDouble 0 4 4 7 9 0 0 7 9"

text \<open>A sequence that has failed, and the descriptor of a 7 by 7 triangular matrix with
  \<open>nb = 4\<close>.\<close>

definition failed_sequence :: plasma_sequence_t where
  "failed_sequence = \<lparr> seq_status = PlasmaErrorSequence \<rparr>"

definition trmm_A :: plasma_desc_t where
  "trmm_A = plasma_desc_general_init PlasmaComplexDouble 0 4 4 7 7 0 0 7 7"


text \<open>A 12 by 12 matrix in tiles of 4 by 4, and the view of its trailing 8 by 8 block:
  two tile rows and two tile columns, each tile holding 4 by 4 entries of the view.\<close>

definition view_8x8 :: plasma_desc_t where
  "view_8x8 = plasma_desc_general_init PlasmaComplexDouble 0 4 4 12 12 4 4 8 8"

text \<open>A 3 by 4 matrix of doubles in tiles of 2 by 2, and the view of its columns 1
  and 2: the column origin \<open>j = 1\<close> is not a multiple of \<open>nb\<close>, and the last tile row
  holds one matrix row.\<close>

definition view_3x2 :: plasma_desc_t where
  "view_3x2 = plasma_desc_general_init PlasmaRealDouble 0 2 2 3 4 0 1 3 2"

text \<open>A 4 by 4 matrix of doubles in tiles of 2 by 2, and the view of its leading 2 by
  2 block, which is the single tile \<open>(0, 0)\<close>.\<close>

definition view_2x2 :: plasma_desc_t where
  "view_2x2 = plasma_desc_general_init PlasmaRealDouble 0 2 2 4 4 0 0 2 2"

section \<open>Main and view dimensions of a tile\<close>

lemma sdiv_nonneg_eq: "0 \<le> (a::int) \<Longrightarrow> 0 \<le> b \<Longrightarrow> a sdiv b = a div b"
  by (cases "a = 0"; cases "b = 0") (simp_all add: signed_divide_int_def sgn_if)

lemma smod_nonneg_eq: "0 \<le> (a::int) \<Longrightarrow> 0 \<le> b \<Longrightarrow> a smod b = a mod b"
  by (cases "a = 0"; cases "b = 0") (simp_all add: signed_modulo_int_def sgn_if)

text \<open>
  The storage height of a tile row: \<open>mb\<close> for a row of full tiles, the remainder
  \<open>lm mod mb\<close> for the short last row; in both cases the number of matrix rows
  \<open>[0, lm)\<close> that fall into tile row \<open>i/mb + k\<close>.
\<close>

lemma plasma_tile_mmain_storage:
  assumes "0 < mb A" "0 \<le> lm A" "0 \<le> desc_i A" "0 \<le> k"
    and "desc_i A sdiv mb A + k < lmt A" "lmt A = (lm A + mb A - 1) sdiv mb A"
  shows "plasma_tile_mmain A k = imin (mb A) (lm A - (desc_i A sdiv mb A + k) * mb A)"
proof -
  let ?t = "desc_i A div mb A + k"
  have lmt: "lmt A = (lm A + mb A - 1) div mb A"
    using assms by (simp add: sdiv_nonneg_eq)
  have t: "?t < (lm A + mb A - 1) div mb A"
    using assms lmt by (simp add: sdiv_nonneg_eq)
  have split: "lm A = mb A * (lm A div mb A) + lm A mod mb A" by simp
  have r: "0 \<le> lm A mod mb A" "lm A mod mb A < mb A" using assms by simp_all
  show ?thesis
  proof (cases "?t < lm A div mb A")
    case True
    then have "?t + 1 \<le> lm A div mb A" by simp
    then have "mb A * (?t + 1) \<le> mb A * (lm A div mb A)"
      using assms(1) by (simp only: mult_le_cancel_left_pos)
    moreover have "mb A * (?t + 1) = ?t * mb A + mb A"
      by (simp add: algebra_simps)
    ultimately have "mb A \<le> lm A - ?t * mb A"
      using split r by linarith
    then show ?thesis using True assms
      by (simp add: plasma_tile_mmain_def imin_def sdiv_nonneg_eq smod_nonneg_eq)
  next
    case False
    have "?t \<le> lm A div mb A"
    proof (rule ccontr)
      assume "\<not> ?t \<le> lm A div mb A"
      then have "lm A div mb A + 1 \<le> ?t" by simp
      moreover have "(lm A + mb A - 1) div mb A \<le> lm A div mb A + 1"
      proof -
        have "(lm A + mb A - 1) div mb A \<le> (lm A + mb A) div mb A"
          using assms(1) by (intro zdiv_mono1) simp_all
        also have "\<dots> = lm A div mb A + 1" using assms(1) by simp
        finally show ?thesis .
      qed
      ultimately show False using t by simp
    qed
    with False have eq: "?t = lm A div mb A" by simp
    have "lm A - ?t * mb A = lm A mod mb A"
      unfolding eq by (simp add: minus_div_mult_eq_mod)
    then show ?thesis using False assms r
      by (simp add: plasma_tile_mmain_def imin_def sdiv_nonneg_eq smod_nonneg_eq)
  qed
qed

text \<open>
  Claim C7. For every descriptor, proper views included, \<open>plasma_tile_mview A k\<close> is
  the number of rows of the submatrix \<open>[i, i+m)\<close> lying in tile row \<open>k\<close> (and
  \<open>plasma_tile_nview\<close> the same for columns). The code compares the absolute tile
  index \<open>i/mb + k\<close> with \<open>m/mb\<close>: on the view \<open>i = 4, m = 8\<close> of a matrix of 12 rows
  with \<open>mb = 4\<close>, tile row \<open>k = 1\<close> holds rows 8 to 11 of the submatrix, four rows,
  and \<open>plasma_tile_mview\<close> returns \<open>m mod mb = 0\<close>; the storage height
  \<open>plasma_tile_mmain\<close> is 4 there.
\<close>

theorem plasma_tile_mview_proper_view:
  "plasma_tile_mview (plasma_desc_general_init PlasmaComplexDouble 0 4 4 12 12 4 4 8 8) 1 = 0
   \<and> view_rows_in_tile (plasma_desc_general_init PlasmaComplexDouble 0 4 4 12 12 4 4 8 8) 1 = 4
   \<and> plasma_tile_mmain (plasma_desc_general_init PlasmaComplexDouble 0 4 4 12 12 4 4 8 8) 1 = 4
   \<and> plasma_tile_nview (plasma_desc_general_init PlasmaComplexDouble 0 4 4 12 12 4 4 8 8) 1 = 0
   \<and> view_cols_in_tile (plasma_desc_general_init PlasmaComplexDouble 0 4 4 12 12 4 4 8 8) 1 = 4"
  by code_simp

section \<open>Submissions of one loop iteration\<close>

lemma filter_concat_map_key:
  assumes "\<And>k c. c \<in> set (f k) \<Longrightarrow> key c = k"
  shows "filter (\<lambda>c. key c = n) (concat (map f ks)) = concat (map f (filter (\<lambda>k. k = n) ks))"
proof (induction ks)
  case Nil
  show ?case by simp
next
  case (Cons k ks)
  have "filter (\<lambda>c. key c = n) (f k) = (if k = n then f k else [])"
    using assms[of _ k] by (auto simp: filter_empty_conv filter_id_conv)
  with Cons show ?case by simp
qed

lemma filter_eq_upto:
  "filter (\<lambda>k. k = n) [a .. b] = (if a \<le> n \<and> n \<le> b then [n] else [])"
proof (induction a b rule: upto.induct)
  case (1 i j)
  show ?case
  proof (cases "i \<le> j")
    case True
    then have "[i .. j] = i # [i + 1 .. j]" by (simp add: upto_rec1)
    with 1 True show ?thesis by auto
  next
    case False
    then show ?thesis by simp
  qed
qed

lemma filter_key_concat_upto:
  assumes "\<And>k c. c \<in> set (f k) \<Longrightarrow> key c = k" and "a \<le> n" "n \<le> b"
  shows "filter (\<lambda>c. key c = n) (concat (map f [a .. b])) = f n"
  using assms(2,3) by (simp add: filter_concat_map_key[of f key, OF assms(1)] filter_eq_upto)

section \<open>Band layout translation: the tile rows of a tile column\<close>





section \<open>Tile matrix multiplication: the kernels of one output tile\<close>

lemma pzgemm_tile_target:
  "c \<in> set (pzgemm_tile transA transB alpha A B beta C m n) \<Longrightarrow> g_C c = (m, n)"
  by (auto simp: pzgemm_tile_def Let_def split: if_splits)

lemma zgemm_calls_on_pzgemm:
  assumes "seq_status sequence = PlasmaSuccess" "0 \<le> m" "m < mt C" "0 \<le> n" "n < nt C"
  shows "zgemm_calls_on (snd (plasma_pzgemm transA transB alpha A B beta C sequence request)) m n
         = pzgemm_tile transA transB alpha A B beta C m n"
proof -
  let ?T = "pzgemm_tile transA transB alpha A B beta C"
  let ?R = "\<lambda>m. concat (map (?T m) [0 .. nt C - 1])"
  have "filter (\<lambda>c. g_C c = (m, n)) (concat (map ?R [0 .. mt C - 1]))
        = filter (\<lambda>c. snd (g_C c) = n)
            (filter (\<lambda>c. fst (g_C c) = m) (concat (map ?R [0 .. mt C - 1])))"
    by (simp add: prod_eq_iff conj_commute)
  also have "filter (\<lambda>c. fst (g_C c) = m) (concat (map ?R [0 .. mt C - 1])) = ?R m"
    by (rule filter_key_concat_upto) (use assms in \<open>auto dest: pzgemm_tile_target\<close>)
  also have "filter (\<lambda>c. snd (g_C c) = n) (?R m) = ?T m n"
    by (rule filter_key_concat_upto) (use assms in \<open>auto dest: pzgemm_tile_target\<close>)
  finally show ?thesis using assms(1)
    by (simp add: zgemm_calls_on_def plasma_pzgemm_def)
qed

text \<open>
  The submissions of \<open>plasma_pzgemm\<close> for one output tile. On a successful sequence,
  for every tile \<open>(m, n)\<close> of \<open>C\<close>: if \<open>alpha = 0\<close> or the inner dimension (\<open>A.n\<close> for
  NoTrans, \<open>A.m\<close> otherwise) is 0, the submissions that update \<open>C(m, n)\<close> are exactly
  one kernel, with inner dimension \<open>k = 0\<close> and scalar \<open>beta\<close>; otherwise they are
  exactly one kernel per inner tile index \<open>k\<close>, in order, with \<open>alpha\<close>, with \<open>beta\<close>
  on the first and 1 on every later one, reading \<open>A(m, k)\<close> or \<open>A(k, m)\<close> and
  \<open>B(k, n)\<close> or \<open>B(n, k)\<close> according to the two transposition flags. The shape of
  every kernel is \<open>plasma_tile_mview(C, m)\<close> by \<open>plasma_tile_nview(C, n)\<close>.
\<close>

lemma pzgemm_tile_submissions:
  assumes "seq_status sequence = PlasmaSuccess" "0 \<le> m" "m < mt C" "0 \<le> n" "n < nt C"
    and "calls = zgemm_calls_on
           (snd (plasma_pzgemm transA transB alpha A B beta C sequence request)) m n"
    and "inner = (if transA = PlasmaNoTrans then desc_n A else desc_m A)"
    and "kt = (if transA = PlasmaNoTrans then nt A else mt A)"
  shows "(alpha = 0 \<or> inner = 0 \<longrightarrow>
            length calls = 1 \<and> g_k (calls ! 0) = 0 \<and> g_beta (calls ! 0) = beta
            \<and> g_C (calls ! 0) = (m, n)
            \<and> g_m (calls ! 0) = plasma_tile_mview C m \<and> g_n (calls ! 0) = plasma_tile_nview C n)
       \<and> (alpha \<noteq> 0 \<and> inner \<noteq> 0 \<longrightarrow>
            length calls = nat kt
            \<and> (\<forall>k < nat kt.
                  g_C (calls ! k) = (m, n) \<and> g_alpha (calls ! k) = alpha
                  \<and> g_beta (calls ! k) = (if k = 0 then beta else 1)
                  \<and> g_A (calls ! k) = (if transA = PlasmaNoTrans then (m, int k) else (int k, m))
                  \<and> g_B (calls ! k) = (if transB = PlasmaNoTrans then (int k, n) else (n, int k))
                  \<and> g_k (calls ! k) = (if transA = PlasmaNoTrans then plasma_tile_nview A (int k)
                                        else plasma_tile_mview A (int k))
                  \<and> g_m (calls ! k) = plasma_tile_mview C m
                  \<and> g_n (calls ! k) = plasma_tile_nview C n))"
proof -
  have calls: "calls = pzgemm_tile transA transB alpha A B beta C m n"
    using assms(1-6) by (simp add: zgemm_calls_on_pzgemm)
  have nth: "[0 .. j - 1] ! k = int k" if "k < nat j" for j k
    using that by (simp add: nth_upto)
  show ?thesis
    unfolding calls assms(7,8)
    by (simp add: pzgemm_tile_def Let_def nth)
qed

text \<open>
  A kernel whose shape has no rows or no columns leaves the tile as it is.
\<close>

lemma core_omp_zgemm_empty_shape:
  "g_m c \<le> 0 \<or> g_n c \<le> 0 \<Longrightarrow> core_omp_zgemm c a b t = t"
  by (auto simp: core_omp_zgemm_def fun_eq_iff)

text \<open>
  Claim C3. For every output tile \<open>(m, n)\<close> of \<open>C\<close> the kernels submitted are to apply
  \<open>C(m,n) := beta \<cdot> C(m,n)\<close>, or to accumulate into \<open>C(m,n)\<close>. The kernels are
  submitted as claimed (lemma \<open>pzgemm_tile_submissions\<close>), but with the shape
  \<open>plasma_tile_mview(C, m)\<close> by \<open>plasma_tile_nview(C, n)\<close>, and these two functions
  are wrong on a proper view (claim C7; they are right where the submatrix starts at
  the origin, lemma \<open>plasma_pzgemm_scales_origin_tile\<close>). On the view \<open>view_8x8\<close> (\<open>i = j = 4\<close>,
  \<open>m = n = 8\<close>, tiles of 4 by 4) the tile \<open>(1, 1)\<close> holds 4 by 4 entries of \<open>C\<close>.
  With \<open>alpha = 0\<close> and \<open>beta = 2\<close> the one kernel submitted for it has the shape 0
  by 0 and leaves the entry 1 at \<open>(0, 0)\<close> of the tile as it is, where \<open>beta \<cdot> 1 = 2\<close>
  is claimed. With \<open>alpha = 1\<close> the two kernels submitted for it have the shape 0 by 0
  as well, and nothing is accumulated into the tile.
\<close>

theorem plasma_pzgemm_proper_view_kernel_shape:
  "map (\<lambda>c. (g_m c, g_n c, g_k c, g_beta c))
     (zgemm_calls_on (snd (plasma_pzgemm PlasmaNoTrans PlasmaNoTrans 0 view_8x8 view_8x8 2
                             view_8x8 ok_sequence ok_request)) 1 1)
   = [(0, 0, 0, 2)]
   \<and> view_rows_in_tile view_8x8 1 = 4 \<and> view_cols_in_tile view_8x8 1 = 4
   \<and> fold (\<lambda>c. core_omp_zgemm c (\<lambda>r s. 1) (\<lambda>r s. 1))
       (zgemm_calls_on (snd (plasma_pzgemm PlasmaNoTrans PlasmaNoTrans 0 view_8x8 view_8x8 2
                               view_8x8 ok_sequence ok_request)) 1 1)
       (\<lambda>r s. 1) 0 0 = 1
   \<and> map (\<lambda>c. (g_m c, g_n c, g_k c, g_beta c))
       (zgemm_calls_on (snd (plasma_pzgemm PlasmaNoTrans PlasmaNoTrans 1 view_8x8 view_8x8 2
                               view_8x8 ok_sequence ok_request)) 1 1)
     = [(0, 0, 4, 2), (0, 0, 0, 1)]
   \<and> fold (\<lambda>c. core_omp_zgemm c (\<lambda>r s. 1) (\<lambda>r s. 1))
       (zgemm_calls_on (snd (plasma_pzgemm PlasmaNoTrans PlasmaNoTrans 1 view_8x8 view_8x8 2
                               view_8x8 ok_sequence ok_request)) 1 1)
       (\<lambda>r s. 1) 0 0 = 1"
proof -
  have h: "seq_status ok_sequence = PlasmaSuccess" "(0::int) \<le> 1" "1 < mt view_8x8"
    "(0::int) \<le> 1" "1 < nt view_8x8"
    by (simp_all add: ok_sequence_def view_8x8_def plasma_desc_general_init_def
        sdiv_nonneg_eq smod_nonneg_eq)
  have v: "plasma_tile_mview view_8x8 1 = 0" "plasma_tile_nview view_8x8 1 = 0"
    "plasma_tile_nview view_8x8 0 = 4" "desc_n view_8x8 = 8" "nt view_8x8 = 2"
    by (simp_all add: view_8x8_def plasma_desc_general_init_def plasma_tile_mview_def
        plasma_tile_nview_def sdiv_nonneg_eq smod_nonneg_eq)
  have c0: "zgemm_calls_on (snd (plasma_pzgemm PlasmaNoTrans PlasmaNoTrans 0 view_8x8 view_8x8 2
                             view_8x8 ok_sequence ok_request)) 1 1
            = pzgemm_tile PlasmaNoTrans PlasmaNoTrans 0 view_8x8 view_8x8 2 view_8x8 1 1"
    by (rule zgemm_calls_on_pzgemm[OF h])
  have c1: "zgemm_calls_on (snd (plasma_pzgemm PlasmaNoTrans PlasmaNoTrans 1 view_8x8 view_8x8 2
                             view_8x8 ok_sequence ok_request)) 1 1
            = pzgemm_tile PlasmaNoTrans PlasmaNoTrans 1 view_8x8 view_8x8 2 view_8x8 1 1"
    by (rule zgemm_calls_on_pzgemm[OF h])
  have r: "view_rows_in_tile view_8x8 1 = 4" "view_cols_in_tile view_8x8 1 = 4"
    by code_simp+
  show ?thesis
    unfolding c0 c1
    by (simp add: r pzgemm_tile_def Let_def v upto_rec1 core_omp_zgemm_def)
qed

section \<open>Status of a sequence and cancellation\<close>

lemma plasma_request_fail_keeps_error:
  "seq_status sequence \<noteq> PlasmaSuccess \<Longrightarrow>
     seq_status (fst (plasma_request_fail sequence request err)) = seq_status sequence"
  by (simp add: plasma_request_fail_def)

lemma plasma_request_fail_first_error:
  "seq_status sequence = PlasmaSuccess \<Longrightarrow>
     seq_status (fst (plasma_request_fail sequence request err)) = err
     \<and> req_status (snd (plasma_request_fail sequence request err)) = err"
  by (simp add: plasma_request_fail_def)

lemma CORE_OMP_zpotrf_cancelled:
  "seq_status sequence \<noteq> PlasmaSuccess \<Longrightarrow>
     CORE_OMP_zpotrf LAPACKE_zpotrf uplo n A lda sequence request iinfo = (A, sequence, request)"
  by (simp add: CORE_OMP_zpotrf_def)

lemma core_omp_zsyssq_cancelled:
  "seq_status sequence \<noteq> PlasmaSuccess \<Longrightarrow>
     core_omp_zsyssq ops LAPACK_zlassq uplo n A lda scale sumsq sequence = (scale, sumsq)
     \<and> core_omp_zsyssq_aux ops m n scales sumsqs val sequence = val"
  by (simp add: core_omp_zsyssq_def core_omp_zsyssq_aux_def)

lemma plasma_pzgemm_failed_sequence:
  "seq_status sequence \<noteq> PlasmaSuccess \<Longrightarrow>
     snd (plasma_pzgemm transA transB alpha A B beta C sequence request) = []
     \<and> seq_status (fst (fst (plasma_pzgemm transA transB alpha A B beta C sequence request)))
         = seq_status sequence"
  by (simp add: plasma_pzgemm_def plasma_request_fail_def)

text \<open>
  The task body of \<open>core_omp_clag2z\<close> on one entry, with an array \<open>As\<close> of two entries
  (\<open>ldas = 2\<close>) so that the sixteen bytes that \<open>core_zlag2c\<close> reads lie inside the
  array: whatever the status of the sequence, the numbers read are stored, rounded to
  single precision, in the first two cells of \<open>A\<close>, unless one of them is outside the
  range of single precision.
\<close>

lemma core_omp_clag2z_padded:
  "core_omp_clag2z fmt 1 1 [c0, c1, c2, c3] 2 [a0, a1, a2, a3] 1 sequence request
   = (case (load_double fmt [c0, c1, c2, c3] 0, load_double fmt [c0, c1, c2, c3] 2) of
        (Some re, Some im) \<Rightarrow>
          if re < - single_max fmt \<or> single_max fmt < re
             \<or> im < - single_max fmt \<or> single_max fmt < im
          then Some [a0, a1, a2, a3]
          else Some [Single (to_single fmt re), Single (to_single fmt im), a2, a3]
      | _ \<Rightarrow> None)"
  by (simp add: core_omp_clag2z_def core_zlag2c_def LAPACKE_zlag2c_work_def zlag2c_entry_def
      load_double_def store_single_def upto_rec1)

text \<open>
  Claim C4. Once the status of a sequence is not Success it keeps the first error
  (lemma \<open>plasma_request_fail_keeps_error\<close>), and the task bodies of \<open>CORE_OMP_zpotrf\<close>,
  \<open>core_omp_zsyssq\<close> and \<open>core_omp_zsyssq_aux\<close> started afterwards leave their
  outputs and both statuses as they are (lemmas \<open>CORE_OMP_zpotrf_cancelled\<close>,
  \<open>core_omp_zsyssq_cancelled\<close>). The claim speaks of every task body: the body
  submitted by \<open>core_omp_clag2z\<close> does not test the status. On a failed sequence, for
  one entry \<open>As = [5 + 0i]\<close> and \<open>A = [7 + 0i]\<close>, it calls \<open>core_zlag2c\<close> all the same,
  which reads sixteen bytes from the eight bytes of \<open>As\<close>: past the end of the array,
  undefined behaviour in the place of a return without effect. With a second entry in
  \<open>As\<close> the read stays inside the array, and unless a number read is outside the
  range of single precision the real part of \<open>A[0]\<close> is overwritten by two single
  precision numbers (lemma \<open>core_omp_clag2z_padded\<close> for any arrays of these sizes). The
  body of \<open>CORE_OMP_zpotrf\<close> leaves its tile untouched on the
  same sequence.
\<close>

theorem core_omp_clag2z_not_cancelled:
  "seq_status failed_sequence \<noteq> PlasmaSuccess
   \<and> core_omp_clag2z fmt 1 1 [Single 5, Single 0] 1
        [Double_lo 7, Double_hi 7, Double_lo 0, Double_hi 0] 1 failed_sequence ok_request
      = None
   \<and> core_omp_clag2z fmt 1 1 [Single 5, Single 0, Single 0, Single 0] 2
        [Double_lo 7, Double_hi 7, Double_lo 0, Double_hi 0] 1 failed_sequence ok_request
      = (if cells_as_double fmt (Single 5) (Single 0) < - single_max fmt
            \<or> single_max fmt < cells_as_double fmt (Single 5) (Single 0)
            \<or> cells_as_double fmt (Single 0) (Single 0) < - single_max fmt
            \<or> single_max fmt < cells_as_double fmt (Single 0) (Single 0)
         then Some [Double_lo 7, Double_hi 7, Double_lo 0, Double_hi 0]
         else Some [Single (to_single fmt (cells_as_double fmt (Single 5) (Single 0))),
                    Single (to_single fmt (cells_as_double fmt (Single 0) (Single 0))),
                    Double_lo 0, Double_hi 0])
   \<and> CORE_OMP_zpotrf LAPACKE_zpotrf PlasmaLower 1 [7] 1 failed_sequence ok_request 0
      = ([7], failed_sequence, ok_request)"
  by (simp add: core_omp_clag2z_def core_zlag2c_def LAPACKE_zlag2c_work_def zlag2c_entry_def
      load_double_def store_single_def CORE_OMP_zpotrf_def failed_sequence_def
      PlasmaErrorSequence_def PlasmaSuccess_def upto_rec1)

text \<open>
  The sum \<open>iinfo + info\<close> of two \<open>int\<close> values that stays in the range of \<open>int\<close> is
  their sum; outside the range the value stored is another one.
\<close>

lemma int_add_in_range:
  "- (2 ^ 31) \<le> a + b \<Longrightarrow> a + b < 2 ^ 31 \<Longrightarrow> int_add a b = a + b"
  by (simp add: int_add_def)

lemma CORE_OMP_zpotrf_info_wraps:
  "CORE_OMP_zpotrf (\<lambda>uplo n A lda. (A, 2)) PlasmaLower 1 [0] 1 ok_sequence ok_request 2147483647
   = ([0], \<lparr> seq_status = - 2147483647 \<rparr>, \<lparr> req_status = - 2147483647 \<rparr>)"
  by (simp add: CORE_OMP_zpotrf_def CORE_zpotrf_def plasma_request_fail_def int_add_def
      ok_sequence_def ok_request_def PlasmaSuccess_def)

text \<open>
  Claim C5. When the task body of \<open>CORE_OMP_zpotrf\<close> runs the kernel (the sequence is
  successful) and \<open>CORE_zpotrf\<close> returns \<open>info \<noteq> 0\<close>, the sequence status and the
  request status both become \<open>iinfo + info\<close>, the sum being in the range of \<open>int\<close>;
  when \<open>info = 0\<close> the task leaves the sequence and the request as they were.
\<close>

theorem CORE_OMP_zpotrf_forwards_info:
  assumes "seq_status sequence = PlasmaSuccess"
    and "CORE_zpotrf LAPACKE_zpotrf uplo n A lda = (A', info)"
    and "CORE_OMP_zpotrf LAPACKE_zpotrf uplo n A lda sequence request iinfo
           = (A'', sequence', request')"
    and "- (2 ^ 31) \<le> iinfo + info" "iinfo + info < 2 ^ 31"
  shows "(info \<noteq> 0 \<longrightarrow> seq_status sequence' = iinfo + info \<and> req_status request' = iinfo + info)
       \<and> (info = 0 \<longrightarrow> sequence' = sequence \<and> request' = request)"
proof -
  have "int_add iinfo info = iinfo + info"
    using assms(4,5) by (rule int_add_in_range)
  then show ?thesis
    using assms(1-3)
    by (auto simp: CORE_OMP_zpotrf_def plasma_request_fail_def Let_def split: if_splits)
qed

theorem CORE_OMP_zpotrf_forwards_info_witness:
  "seq_status ok_sequence = PlasmaSuccess
   \<and> CORE_zpotrf (\<lambda>uplo n A lda. (A, 3)) PlasmaLower 2 [1, 0, 0, - 1] 2 = ([1, 0, 0, - 1], 3)
   \<and> CORE_OMP_zpotrf (\<lambda>uplo n A lda. (A, 3)) PlasmaLower 2 [1, 0, 0, - 1] 2
        ok_sequence ok_request 4
      = ([1, 0, 0, - 1], \<lparr> seq_status = 7 \<rparr>, \<lparr> req_status = 7 \<rparr>)
   \<and> - (2 ^ 31) \<le> (4::int) + 3 \<and> (4::int) + 3 < 2 ^ 31
   \<and> seq_status \<lparr> seq_status = 7 \<rparr> = 4 + 3 \<and> req_status \<lparr> req_status = 7 \<rparr> = 4 + 3"
proof -
  have h1: "seq_status ok_sequence = PlasmaSuccess" by (simp add: ok_sequence_def)
  have h2: "CORE_zpotrf (\<lambda>uplo n A lda. (A, 3)) PlasmaLower 2 [1, 0, 0, - 1] 2
            = ([1, 0, 0, - 1], 3)"
    by (simp add: CORE_zpotrf_def)
  have h3: "CORE_OMP_zpotrf (\<lambda>uplo n A lda. (A, 3)) PlasmaLower 2 [1, 0, 0, - 1] 2
              ok_sequence ok_request 4
            = ([1, 0, 0, - 1], \<lparr> seq_status = 7 \<rparr>, \<lparr> req_status = 7 \<rparr>)"
    by (simp add: CORE_OMP_zpotrf_def CORE_zpotrf_def plasma_request_fail_def int_add_def
        ok_sequence_def ok_request_def PlasmaSuccess_def)
  have h4: "- (2 ^ 31) \<le> (4::int) + 3" "(4::int) + 3 < 2 ^ 31" by simp_all
  from CORE_OMP_zpotrf_forwards_info[OF h1 h2 h3 h4] h1 h2 h3 h4 show ?thesis by simp
qed

section \<open>The conversion task\<close>

text \<open>
  Claim C10. The task body of \<open>core_omp_clag2z\<close> is to compute what a direct call of
  \<open>core_clag2z\<close> computes. The body calls \<open>core_zlag2c\<close>, the conversion in the
  opposite direction, and not \<open>core_clag2z\<close>. For one entry \<open>As = [5 + 0i]\<close> and
  \<open>A = [0 + 0i]\<close> the direct call stores \<open>5 + 0i\<close> in \<open>A\<close>; the task reads \<open>As\<close> as a
  double precision entry, sixteen bytes of an array of eight, which is undefined
  behaviour. With a second entry in \<open>As\<close> (\<open>ldas = 2\<close>), so that the read stays inside
  the array, the direct call stores \<open>5 + 0i\<close> again, and the task either leaves \<open>A\<close>
  as it was or overwrites the first half of its real part with two single precision
  numbers: in no case does \<open>A\<close> hold \<open>5 + 0i\<close>.
\<close>

theorem core_omp_clag2z_calls_core_zlag2c:
  "core_clag2z fmt 1 1 [Single 5, Single 0] 1
      [Double_lo 0, Double_hi 0, Double_lo 0, Double_hi 0] 1 ok_sequence ok_request
    = Some [Double_lo 5, Double_hi 5, Double_lo 0, Double_hi 0]
   \<and> core_omp_clag2z fmt 1 1 [Single 5, Single 0] 1
        [Double_lo 0, Double_hi 0, Double_lo 0, Double_hi 0] 1 ok_sequence ok_request
      = None
   \<and> core_clag2z fmt 1 1 [Single 5, Single 0, Single 0, Single 0] 2
        [Double_lo 0, Double_hi 0, Double_lo 0, Double_hi 0] 1 ok_sequence ok_request
      = Some [Double_lo 5, Double_hi 5, Double_lo 0, Double_hi 0]
   \<and> core_omp_clag2z fmt 1 1 [Single 5, Single 0, Single 0, Single 0] 2
        [Double_lo 0, Double_hi 0, Double_lo 0, Double_hi 0] 1 ok_sequence ok_request
      \<noteq> Some [Double_lo 5, Double_hi 5, Double_lo 0, Double_hi 0]"
  by (simp add: core_clag2z_def LAPACKE_clag2z_work_def clag2z_entry_def load_single_def
      store_double_def core_omp_clag2z_def core_zlag2c_def LAPACKE_zlag2c_work_def
      zlag2c_entry_def load_double_def store_single_def upto_rec1)

section \<open>Triangular multiply with a zero scalar\<close>

lemma ztrmm_zero_scalar_submits_nothing:
  assumes "alpha = 0"
    and "PLASMA_ztrmm_Tile_Async plasma plasma_desc_check plasma_pztrmm
           side uplo transA diag alpha A B sequence request = Some (s', r', tasks)"
  shows "tasks = []"
  using assms
  by (auto simp: PLASMA_ztrmm_Tile_Async_def request_fail_ptr_def
      split: if_splits option.splits prod.splits)

text \<open>
  Claim C9, as stated: every call with \<open>alpha = 0\<close> and valid non-empty descriptors
  leaves both statuses unchanged. The descriptors \<open>trmm_A\<close> (7 by 7) and \<open>gemm_C\<close> (7
  by 9) satisfy the invariants that \<open>desc_check\<close> tests. A call with \<open>alpha = 0\<close>,
  these descriptors and the illegal value \<open>PlasmaGeneral\<close> for \<open>uplo\<close> stops at the
  check of \<open>uplo\<close>, before the quick return: the sequence and the request, both
  successful before, hold \<open>PlasmaErrorIllegalValue\<close> afterwards. A call with legal
  arguments on a sequence that has failed stops at the check of the sequence: the
  status of the request becomes \<open>PlasmaErrorSequence\<close>. No task is submitted in
  either call.
\<close>

theorem ztrmm_zero_scalar_failed_check_counterexample:
  "desc_check trmm_A = PlasmaSuccess \<and> desc_check gemm_C = PlasmaSuccess
   \<and> desc_m trmm_A = 7 \<and> desc_n trmm_A = 7 \<and> desc_m gemm_C = 7 \<and> desc_n gemm_C = 9
   \<and> PLASMA_ztrmm_Tile_Async (Some ()) desc_check
        (\<lambda>side uplo transA diag alpha A B s r. (s, r, [(0::nat)]))
        PlasmaLeft PlasmaGeneral PlasmaNoTrans PlasmaNonUnit 0 trmm_A gemm_C
        (Some ok_sequence) (Some ok_request)
      = Some (\<lparr> seq_status = PlasmaErrorIllegalValue \<rparr>,
              \<lparr> req_status = PlasmaErrorIllegalValue \<rparr>, [])
   \<and> seq_status ok_sequence = PlasmaSuccess \<and> req_status ok_request = PlasmaSuccess
   \<and> PlasmaErrorIllegalValue \<noteq> PlasmaSuccess
   \<and> PLASMA_ztrmm_Tile_Async (Some ()) desc_check
        (\<lambda>side uplo transA diag alpha A B s r. (s, r, [(0::nat)]))
        PlasmaLeft PlasmaUpper PlasmaNoTrans PlasmaNonUnit 0 trmm_A gemm_C
        (Some failed_sequence) (Some ok_request)
      = Some (failed_sequence, \<lparr> req_status = PlasmaErrorSequence \<rparr>, [])
   \<and> PlasmaErrorSequence \<noteq> PlasmaSuccess"
  by (simp add: PLASMA_ztrmm_Tile_Async_def request_fail_ptr_def plasma_request_fail_def
      desc_check_def trmm_A_def gemm_C_def plasma_desc_general_init_def ok_sequence_def
      ok_request_def failed_sequence_def PlasmaSuccess_def PlasmaErrorIllegalValue_def
      PlasmaErrorSequence_def)

text \<open>
  Claim C9, amended. A call of \<open>PLASMA_ztrmm_Tile_Async\<close> with \<open>alpha = 0\<close> that passes
  the argument checks made before the quick return (an initialised context, a
  sequence and a request that are not null, a sequence whose status is Success,
  descriptors \<open>A\<close> and \<open>B\<close> accepted by \<open>plasma_desc_check\<close>, square tiles in both,
  legal values of \<open>side\<close>, \<open>uplo\<close>, \<open>transA\<close> and \<open>diag\<close>) returns without submitting
  any task: \<open>plasma_pztrmm\<close> is not called, the sequence and the request are
  unchanged, and the tile memory, which only tasks change, is the memory before the
  call. \<open>B\<close> is not set to zero.
\<close>

theorem PLASMA_ztrmm_Tile_Async_alpha_zero:
  assumes "alpha = 0"
    and "plasma \<noteq> None" "sequence = Some s" "request = Some r"
    and "seq_status s = PlasmaSuccess"
    and "plasma_desc_check A = PlasmaSuccess" "plasma_desc_check B = PlasmaSuccess"
    and "nb A = mb A" "nb B = mb B"
    and "side = PlasmaLeft \<or> side = PlasmaRight"
    and "uplo = PlasmaUpper \<or> uplo = PlasmaLower"
    and "transA = PlasmaConjTrans \<or> transA = PlasmaNoTrans \<or> transA = PlasmaTrans"
    and "diag = PlasmaUnit \<or> diag = PlasmaNonUnit"
  shows "PLASMA_ztrmm_Tile_Async plasma plasma_desc_check plasma_pztrmm
           side uplo transA diag alpha A B sequence request = Some (s, r, [])
         \<and> run_tasks exec [] tiles = tiles"
  using assms by (auto simp: PLASMA_ztrmm_Tile_Async_def run_tasks_def)

theorem PLASMA_ztrmm_Tile_Async_alpha_zero_witness:
  "(0::complex) = 0 \<and> Some () \<noteq> None \<and> seq_status ok_sequence = PlasmaSuccess
   \<and> desc_check trmm_A = PlasmaSuccess \<and> desc_check gemm_C = PlasmaSuccess
   \<and> nb trmm_A = mb trmm_A \<and> nb gemm_C = mb gemm_C
   \<and> PLASMA_ztrmm_Tile_Async (Some ()) desc_check
        (\<lambda>side uplo transA diag alpha A B s r. (s, r, [(0::nat)]))
        PlasmaLeft PlasmaUpper PlasmaNoTrans PlasmaNonUnit 0 trmm_A gemm_C
        (Some ok_sequence) (Some ok_request)
      = Some (ok_sequence, ok_request, [])
   \<and> run_tasks (\<lambda>t (tiles :: complex list). map (\<lambda>x. 0) tiles) [] [1, 2] = [1, 2]"
proof -
  have sq: "nb trmm_A = mb trmm_A" "nb gemm_C = mb gemm_C"
    by (simp_all add: trmm_A_def gemm_C_def plasma_desc_general_init_def)
  have ck: "desc_check trmm_A = PlasmaSuccess" "desc_check gemm_C = PlasmaSuccess"
    by (simp_all add: desc_check_def trmm_A_def gemm_C_def plasma_desc_general_init_def)
  have ok: "seq_status ok_sequence = PlasmaSuccess" by (simp add: ok_sequence_def)
  have ne: "Some () \<noteq> None" by simp
  have legal: "PlasmaLeft = PlasmaLeft \<or> PlasmaLeft = PlasmaRight"
    "PlasmaUpper = PlasmaUpper \<or> PlasmaUpper = PlasmaLower"
    "PlasmaNoTrans = PlasmaConjTrans \<or> PlasmaNoTrans = PlasmaNoTrans
       \<or> PlasmaNoTrans = PlasmaTrans"
    "PlasmaNonUnit = PlasmaUnit \<or> PlasmaNonUnit = PlasmaNonUnit"
    by simp_all
  from PLASMA_ztrmm_Tile_Async_alpha_zero[where plasma = "Some ()"
      and plasma_desc_check = desc_check and A = trmm_A and B = gemm_C
      and side = PlasmaLeft and uplo = PlasmaUpper and transA = PlasmaNoTrans
      and diag = PlasmaNonUnit and s = ok_sequence and r = ok_request
      and plasma_pztrmm = "\<lambda>side uplo transA diag alpha A B s r. (s, r, [(0::nat)])"
      and exec = "\<lambda>t (tiles :: complex list). map (\<lambda>x. 0) tiles" and tiles = "[1, 2]",
      OF refl ne refl refl ok ck sq legal]
  show ?thesis using sq ok ck by simp
qed

section \<open>The sum of squares of the tiles of a symmetric matrix\<close>

text \<open>
  The task body of \<open>core_omp_zsyssq_aux\<close> follows the reduction of the spec, whatever
  the arithmetic: on a successful sequence it merges the pairs of the strictly lower
  tiles \<open>(i, j)\<close>, \<open>i > j\<close>, column by column, by the rule of the spec, doubles the
  sum, merges the pairs of the diagonal tiles by the same rule and stores
  \<open>scl \<cdot> \<surd>sum\<close>.
\<close>

lemma ssq_update_merge:
  "ssq_update ops scale sumsq idx = ssq_merge ops (scale ! nat idx, sumsq ! nat idx)"
  by (simp add: ssq_update_def ssq_merge_def fun_eq_iff)

lemma fold_concat_map:
  "fold f (concat (map g xs)) acc = fold (\<lambda>x. fold f (g x)) xs acc"
  by (induction xs arbitrary: acc) simp_all

lemma core_omp_zsyssq_aux_reduce:
  assumes "seq_status sequence = PlasmaSuccess"
  shows "core_omp_zsyssq_aux ops m n scale sumsq val sequence
         = ssq_reduce ops
             (map (\<lambda>idx. (scale ! nat idx, sumsq ! nat idx))
                  (concat (map (\<lambda>j. map (\<lambda>i. m * j + i) [j + 1 .. n - 1]) [0 .. n - 1])))
             (map (\<lambda>j. (scale ! nat (m * j + j), sumsq ! nat (m * j + j))) [0 .. n - 1])"
proof -
  let ?p = "\<lambda>idx. (scale ! nat idx, sumsq ! nat idx)"
  have off: "fold (ssq_merge ops)
               (map ?p (concat (map (\<lambda>j. map (\<lambda>i. m * j + i) [j + 1 .. n - 1]) [0 .. n - 1]))) acc
             = fold (\<lambda>j acc. fold (\<lambda>i. ssq_update ops scale sumsq (m * j + i)) [j + 1 .. n - 1] acc)
                 [0 .. n - 1] acc" for acc
    by (simp add: map_concat fold_concat_map fold_map comp_def ssq_update_merge)
  have dg: "fold (ssq_merge ops) (map (\<lambda>j. ?p (m * j + j)) [0 .. n - 1]) acc
            = fold (\<lambda>j. ssq_update ops scale sumsq (m * j + j)) [0 .. n - 1] acc" for acc
    by (simp add: fold_map comp_def ssq_update_merge)
  show ?thesis
    using assms by (simp add: core_omp_zsyssq_aux_def ssq_reduce_def off dg)
qed

text \<open>
  \<open>core_zsyssq\<close> doubles the sum of squares that \<open>LAPACK_zlassq\<close> has accumulated from
  the off-diagonal entries, and merges a diagonal entry whose real part is not zero
  as the pair \<open>(|a|, 1)\<close>, by the rule of the spec (the factor 1 of the rule is not
  written in the source: \<open>1\<cdot>x = x\<close> is needed of the arithmetic).
\<close>

lemma zsyssq_diag_merge:
  assumes "d_neq ops (fst (A ! nat idx)) (d_zero ops)"
    and "\<And>x. d_mul ops (d_one ops) x = x"
  shows "zsyssq_diag ops A idx acc
         = ssq_merge ops (d_cabs ops (fst (A ! nat idx)) (snd (A ! nat idx)), d_one ops) acc"
  using assms by (simp add: zsyssq_diag_def ssq_merge_def Let_def split: prod.splits)

lemma core_zsyssq_real_diagonal:
  "core_omp_zsyssq real_ops LAPACK_zlassq PlasmaLower 1 [(1, 0)] 1 scale sumsq ok_sequence
   = (1, 1)"
  by (simp add: core_omp_zsyssq_def core_zsyssq_def zsyssq_diag_def real_ops_def
      ok_sequence_def upto_rec1)

text \<open>
  Claim C8. Every diagonal contribution is to enter the sum of squares with weight 1.
  The loop over the diagonal in \<open>core_zsyssq\<close> skips an entry when
  \<open>(double)A[lda*i+i]\<close> is zero, and the cast of a complex number to \<open>double\<close> is
  its real part: a diagonal entry \<open>0 + im\<cdot>i\<close> is skipped whatever its imaginary part
  is, although its modulus \<open>cabs\<close>, which the loop merges for the other entries, is
  \<open>|im|\<close>. For the 1 by 1 tile that holds such an entry the task body of
  \<open>core_omp_zsyssq\<close> returns the pair \<open>(0, 1\<cdot>2)\<close> it started from, doubled: the pair
  of a tile of zeros. The only thing used of the arithmetic is that \<open>0 \<noteq> 0\<close> is
  false. For the tile \<open>[i]\<close> the pair stands for the norm 0 where the norm is 1; for
  the tile \<open>[1]\<close> the entry is merged with weight 1 (lemma
  \<open>core_zsyssq_real_diagonal\<close>).
\<close>

theorem core_zsyssq_skips_imaginary_diagonal:
  assumes "\<not> d_neq ops (d_zero ops) (d_zero ops)"
  shows "core_omp_zsyssq ops LAPACK_zlassq uplo 1 [(d_zero ops, im)] 1 scale sumsq ok_sequence
         = (d_zero ops, d_mul ops (d_one ops) (d_two ops))"
  using assms
  by (simp add: core_omp_zsyssq_def core_zsyssq_def zsyssq_diag_def ok_sequence_def upto_rec1)

theorem core_zsyssq_skips_imaginary_diagonal_witness:
  "core_omp_zsyssq real_ops (\<lambda>k A first inc acc. acc) PlasmaLower 1 [(0, 1)] 1 5 7 ok_sequence
   = (0, 2)"
proof -
  have h: "\<not> d_neq real_ops (d_zero real_ops) (d_zero real_ops)"
    by (simp add: real_ops_def)
  from core_zsyssq_skips_imaginary_diagonal[where ops = real_ops and im = 1
      and uplo = PlasmaLower and scale = 5 and sumsq = 7
      and LAPACK_zlassq = "\<lambda>k A first inc acc. acc", OF h]
  show ?thesis by (simp add: real_ops_def)
qed

section \<open>Tile addressing partitions the backing store\<close>

lemma div_strip:
  fixes s t q :: int
  assumes "0 < s"
  shows "(s * t \<le> q \<and> q < s * t + s) = (q div s = t)"
proof
  assume b: "s * t \<le> q \<and> q < s * t + s"
  then have "(q - s * t) div s = 0" by (intro div_pos_pos_trivial) simp_all
  moreover have "q div s = ((q - s * t) + s * t) div s" by simp
  moreover have "((q - s * t) + s * t) div s = t + (q - s * t) div s"
    using assms by (simp only: div_mult_self2)
  ultimately show "q div s = t" by simp
next
  assume e: "q div s = t"
  have "s * (q div s) + q mod s = q" by simp
  moreover have "0 \<le> q mod s" "q mod s < s" using assms by simp_all
  ultimately show "s * t \<le> q \<and> q < s * t + s" unfolding e[symmetric] by linarith
qed

lemma strip_mem:
  fixes s t T a p :: int
  assumes "0 < s" "0 \<le> t" "t < T"
  shows "p \<in> {a + s * t ..< a + s * t + s} \<longleftrightarrow> a \<le> p \<and> p < a + s * T \<and> (p - a) div s = t"
proof -
  have m: "s * (t + 1) \<le> s * T" using assms by (intro mult_left_mono) simp_all
  have n: "0 \<le> s * t" using assms by simp
  have d: "(s * t \<le> p - a \<and> p - a < s * t + s) = ((p - a) div s = t)"
    using assms(1) by (rule div_strip)
  show ?thesis
  proof
    assume "p \<in> {a + s * t ..< a + s * t + s}"
    then have b: "s * t \<le> p - a \<and> p - a < s * t + s" by auto
    with d have "(p - a) div s = t" by blast
    moreover have "a \<le> p" using b n by linarith
    moreover have "p < a + s * T" using b m by (simp add: algebra_simps)
    ultimately show "a \<le> p \<and> p < a + s * T \<and> (p - a) div s = t" by blast
  next
    assume "a \<le> p \<and> p < a + s * T \<and> (p - a) div s = t"
    with d have "s * t \<le> p - a \<and> p - a < s * t + s" by blast
    then show "p \<in> {a + s * t ..< a + s * t + s}" by auto
  qed
qed

lemma strip_find:
  fixes s T a p :: int
  assumes "0 < s" "a \<le> p" "p < a + s * T"
  shows "0 \<le> (p - a) div s \<and> (p - a) div s < T"
proof -
  define t where "t = (p - a) div s"
  have b: "s * t \<le> p - a \<and> p - a < s * t + s"
    using div_strip[OF assms(1), of t "p - a"] by (simp add: t_def)
  have "s * t < s * T" using b assms by linarith
  then have "t < T" using assms(1) by (simp only: mult_less_cancel_left_pos)
  moreover have "s * (t + 1) = s * t + s" by (simp only: distrib_left mult_1_right)
  then have "s * 0 < s * (t + 1)" using b assms by simp
  then have "0 < t + 1" using assms(1) by (simp only: mult_less_cancel_left_pos)
  ultimately show ?thesis unfolding t_def by simp
qed

lemma grid_index:
  fixes mm nn L :: int
  assumes "0 \<le> mm" "mm < L" 
  shows "(mm + L * nn) mod L = mm \<and> (mm + L * nn) div L = nn"
  using assms by simp

lemma grid_index_bound:
  fixes mm nn L K :: int
  assumes "0 \<le> mm" "mm < L" "0 \<le> nn" "nn < K"
  shows "0 \<le> mm + L * nn \<and> mm + L * nn < L * K"
proof -
  have "L * (nn + 1) \<le> L * K" using assms by (intro mult_left_mono) simp_all
  moreover have "0 \<le> L * nn" using assms by simp
  ultimately show ?thesis using assms by (simp add: algebra_simps)
qed

lemma scale_mem:
  fixes e a b y :: int
  assumes "0 < e"
  shows "(a * e \<le> y \<and> y < b * e) = (a \<le> y div e \<and> y div e < b)"
proof -
  define q where "q = y div e"
  have r: "e * q \<le> y \<and> y < e * q + e"
    using div_strip[OF assms, of q y] by (simp add: q_def)
  have 1: "(a * e \<le> y) = (a \<le> q)"
  proof
    assume "a * e \<le> y"
    moreover have "a * e = e * a" by (simp only: mult.commute)
    moreover have "e * (q + 1) = e * q + e" by (simp only: distrib_left mult_1_right)
    ultimately have "e * a < e * (q + 1)" using r by linarith
    then have "a < q + 1" using assms by (simp only: mult_less_cancel_left_pos)
    then show "a \<le> q" by simp
  next
    assume "a \<le> q"
    then have "e * a \<le> e * q" using assms by (intro mult_left_mono) simp_all
    then have "a * e \<le> e * q" by (simp only: mult.commute)
    then show "a * e \<le> y" using r by linarith
  qed
  have 2: "(y < b * e) = (q < b)"
  proof
    assume "y < b * e"
    moreover have "b * e = e * b" by (simp only: mult.commute)
    ultimately have "e * q < e * b" using r by linarith
    then show "q < b" using assms by (simp only: mult_less_cancel_left_pos)
  next
    assume "q < b"
    then have "e * (q + 1) \<le> e * b" using assms by (intro mult_left_mono) simp_all
    then have "e * q + e \<le> b * e" by (simp only: distrib_left mult_1_right mult.commute)
    then show "y < b * e" using r by linarith
  qed
  show ?thesis using 1 2 by (simp add: q_def)
qed

lemma layout_locator:
  fixes mb nb lm1 ln1 r c :: int
  assumes pos: "0 < mb" "0 < nb" "0 \<le> lm1" "0 \<le> ln1" "0 \<le> r" "0 \<le> c"
  defines "a21 \<equiv> mb * nb * (lm1 * ln1)"
    and "a12 \<equiv> mb * nb * (lm1 * ln1) + nb * r * ln1"
    and "a22 \<equiv> mb * nb * (lm1 * ln1) + nb * r * ln1 + mb * c * lm1"
    and "N \<equiv> mb * nb * (lm1 * ln1) + nb * r * ln1 + mb * c * lm1 + r * c"
  shows "\<exists>f. (\<forall>mm nn p. 0 \<le> mm \<and> (mm < lm1 \<or> mm = lm1 \<and> 0 < r)
                     \<and> 0 \<le> nn \<and> (nn < ln1 \<or> nn = ln1 \<and> 0 < c) \<longrightarrow>
                (p \<in> {(if mm < lm1
                        then (if nn < ln1 then mb * nb * (mm + lm1 * nn) else a12 + mb * c * mm)
                        else (if nn < ln1 then a21 + nb * r * nn else a22))
                       ..<
                       (if mm < lm1
                        then (if nn < ln1 then mb * nb * (mm + lm1 * nn) else a12 + mb * c * mm)
                        else (if nn < ln1 then a21 + nb * r * nn else a22))
                       + (if mm < lm1 then mb else r) * (if nn < ln1 then nb else c)})
                = (0 \<le> p \<and> p < N \<and> f p = (mm, nn)))
           \<and> (\<forall>p. 0 \<le> p \<and> p < N \<longrightarrow>
                  0 \<le> fst (f p) \<and> (fst (f p) < lm1 \<or> fst (f p) = lm1 \<and> 0 < r)
                  \<and> 0 \<le> snd (f p) \<and> (snd (f p) < ln1 \<or> snd (f p) = ln1 \<and> 0 < c))"
proof -
  define f where "f p =
     (if p < a21 then ((p div (mb * nb)) mod lm1, (p div (mb * nb)) div lm1)
      else if p < a12 then (lm1, (p - a21) div (nb * r))
      else if p < a22 then ((p - a12) div (mb * c), ln1)
      else (lm1, ln1))" for p
  have S: "0 < mb * nb" using pos by simp
  have z: "0 \<le> a21" "a21 \<le> a12" "a12 \<le> a22" "a22 \<le> N"
    using pos by (simp_all add: a21_def a12_def a22_def N_def)
  have a12: "a12 = a21 + nb * r * ln1" and a22: "a22 = a12 + mb * c * lm1" and N: "N = a22 + r * c"
    by (simp_all add: a21_def a12_def a22_def N_def)
  \<comment> \<open>where the locator points, zone by zone\<close>
  have R1: "0 \<le> fst (f p) \<and> fst (f p) < lm1 \<and> 0 \<le> snd (f p) \<and> snd (f p) < ln1"
    if "0 \<le> p" "p < a21" for p
  proof -
    have t: "0 \<le> (p - 0) div (mb * nb) \<and> (p - 0) div (mb * nb) < lm1 * ln1"
      using S that by (intro strip_find) (simp_all add: a21_def algebra_simps)
    then have "0 < lm1 * ln1" by linarith
    then have l: "0 < lm1" using pos by (simp add: zero_less_mult_iff)
    have "(p div (mb * nb)) div lm1 < ln1"
      using strip_find[of lm1 0 "p div (mb * nb)" ln1] l t by simp
    moreover have "0 \<le> (p div (mb * nb)) div lm1"
      using t l by (simp add: pos_imp_zdiv_nonneg_iff)
    ultimately show ?thesis using that l by (simp add: f_def)
  qed
  have R2: "fst (f p) = lm1 \<and> 0 < r \<and> 0 \<le> snd (f p) \<and> snd (f p) < ln1"
    if "a21 \<le> p" "p < a12" for p
  proof -
    have "0 < nb * r * ln1" using that a12 by linarith
    then have "0 < r" using pos by (simp add: zero_less_mult_iff)
    then have s: "0 < nb * r" using pos by simp
    have "0 \<le> (p - a21) div (nb * r) \<and> (p - a21) div (nb * r) < ln1"
      using s that by (intro strip_find) (simp_all add: a12)
    then show ?thesis using that \<open>0 < r\<close> by (simp add: f_def)
  qed
  have R3: "0 \<le> fst (f p) \<and> fst (f p) < lm1 \<and> snd (f p) = ln1 \<and> 0 < c"
    if "a12 \<le> p" "p < a22" for p
  proof -
    have "0 < mb * c * lm1" using that a22 by linarith
    then have "0 < c" using pos by (simp add: zero_less_mult_iff)
    then have s: "0 < mb * c" using pos by simp
    have "0 \<le> (p - a12) div (mb * c) \<and> (p - a12) div (mb * c) < lm1"
      using s that by (intro strip_find) (simp_all add: a22)
    then show ?thesis using that z \<open>0 < c\<close> by (simp add: f_def)
  qed
  have R4: "fst (f p) = lm1 \<and> snd (f p) = ln1 \<and> 0 < r \<and> 0 < c"
    if "a22 \<le> p" "p < N" for p
  proof -
    have "0 < r * c" using that N by linarith
    then have "0 < r \<and> 0 < c" using pos by (simp add: zero_less_mult_iff)
    then show ?thesis using that z by (simp add: f_def)
  qed
  have grid: "0 \<le> fst (f p) \<and> (fst (f p) < lm1 \<or> fst (f p) = lm1 \<and> 0 < r)
              \<and> 0 \<le> snd (f p) \<and> (snd (f p) < ln1 \<or> snd (f p) = ln1 \<and> 0 < c)"
    if "0 \<le> p" "p < N" for p
  proof -
    consider "p < a21" | "a21 \<le> p" "p < a12" | "a12 \<le> p" "p < a22" | "a22 \<le> p" by linarith
    then show ?thesis
    proof cases
      case 1 then show ?thesis using R1[of p] that by simp
    next
      case 2 then show ?thesis using R2[of p] pos by simp
    next
      case 3 then show ?thesis using R3[of p] pos by simp
    next
      case 4 then show ?thesis using R4[of p] that pos by simp
    qed
  qed
  \<comment> \<open>the four zones\<close>
  have Z11: "(p \<in> {mb * nb * (mm + lm1 * nn) ..< mb * nb * (mm + lm1 * nn) + mb * nb})
             = (0 \<le> p \<and> p < N \<and> f p = (mm, nn))"
    if "0 \<le> mm" "mm < lm1" "0 \<le> nn" "nn < ln1" for mm nn p
  proof -
    have b: "0 \<le> mm + lm1 * nn \<and> mm + lm1 * nn < lm1 * ln1"
      using that by (intro grid_index_bound) simp_all
    have m: "(p \<in> {0 + mb * nb * (mm + lm1 * nn) ..< 0 + mb * nb * (mm + lm1 * nn) + mb * nb})
             = (0 \<le> p \<and> p < 0 + mb * nb * (lm1 * ln1) \<and> (p - 0) div (mb * nb) = mm + lm1 * nn)"
      using S b by (intro strip_mem) simp_all
    have i: "(mm + lm1 * nn) mod lm1 = mm \<and> (mm + lm1 * nn) div lm1 = nn"
      using that by (intro grid_index) simp_all
    show ?thesis
    proof
      assume "p \<in> {mb * nb * (mm + lm1 * nn) ..< mb * nb * (mm + lm1 * nn) + mb * nb}"
      with m have p: "0 \<le> p" "p < a21" "p div (mb * nb) = mm + lm1 * nn"
        by (simp_all add: a21_def)
      then show "0 \<le> p \<and> p < N \<and> f p = (mm, nn)" using i z by (simp add: f_def)
    next
      assume a: "0 \<le> p \<and> p < N \<and> f p = (mm, nn)"
      have "p < a21"
      proof (rule ccontr)
        assume "\<not> p < a21"
        then consider "a21 \<le> p" "p < a12" | "a12 \<le> p" "p < a22" | "a22 \<le> p" by linarith
        then show False
        proof cases
          case 1 then show False using R2[of p] a that by simp
        next
          case 2 then show False using R3[of p] a that by simp
        next
          case 3 then show False using R4[of p] a that by simp
        qed
      qed
      with a have e: "(p div (mb * nb)) mod lm1 = mm" "(p div (mb * nb)) div lm1 = nn"
        by (simp_all add: f_def)
      have "p div (mb * nb) = lm1 * ((p div (mb * nb)) div lm1) + (p div (mb * nb)) mod lm1"
        by simp
      then have "p div (mb * nb) = mm + lm1 * nn" using e by simp
      with a \<open>p < a21\<close> m show "p \<in> {mb * nb * (mm + lm1 * nn) ..< mb * nb * (mm + lm1 * nn) + mb * nb}"
        by (simp add: a21_def)
    qed
  qed
  have Z21: "(p \<in> {a21 + nb * r * nn ..< a21 + nb * r * nn + r * nb})
             = (0 \<le> p \<and> p < N \<and> f p = (lm1, nn))"
    if "0 < r" "0 \<le> nn" "nn < ln1" for nn p
  proof -
    have s: "0 < nb * r" using pos that by simp
    have m: "(p \<in> {a21 + nb * r * nn ..< a21 + nb * r * nn + nb * r})
             = (a21 \<le> p \<and> p < a21 + nb * r * ln1 \<and> (p - a21) div (nb * r) = nn)"
      using s that by (intro strip_mem) simp_all
    show ?thesis
    proof
      assume "p \<in> {a21 + nb * r * nn ..< a21 + nb * r * nn + r * nb}"
      with m have p: "a21 \<le> p" "p < a12" "(p - a21) div (nb * r) = nn"
        by (simp_all add: a12 mult.commute)
      then show "0 \<le> p \<and> p < N \<and> f p = (lm1, nn)" using z by (simp add: f_def)
    next
      assume a: "0 \<le> p \<and> p < N \<and> f p = (lm1, nn)"
      have "a21 \<le> p \<and> p < a12"
      proof (rule ccontr)
        assume "\<not> (a21 \<le> p \<and> p < a12)"
        then consider "p < a21" | "a12 \<le> p" "p < a22" | "a22 \<le> p" using z by linarith
        then show False
        proof cases
          case 1 then show False using R1[of p] a by simp
        next
          case 2 then show False using R3[of p] a by simp
        next
          case 3 then show False using R4[of p] a that by simp
        qed
      qed
      with a have "(p - a21) div (nb * r) = nn" by (simp add: f_def)
      with \<open>a21 \<le> p \<and> p < a12\<close> m show "p \<in> {a21 + nb * r * nn ..< a21 + nb * r * nn + r * nb}"
        by (simp add: a12 mult.commute)
    qed
  qed
  have Z12: "(p \<in> {a12 + mb * c * mm ..< a12 + mb * c * mm + mb * c})
             = (0 \<le> p \<and> p < N \<and> f p = (mm, ln1))"
    if "0 < c" "0 \<le> mm" "mm < lm1" for mm p
  proof -
    have s: "0 < mb * c" using pos that by simp
    have m: "(p \<in> {a12 + mb * c * mm ..< a12 + mb * c * mm + mb * c})
             = (a12 \<le> p \<and> p < a12 + mb * c * lm1 \<and> (p - a12) div (mb * c) = mm)"
      using s that by (intro strip_mem) simp_all
    show ?thesis
    proof
      assume "p \<in> {a12 + mb * c * mm ..< a12 + mb * c * mm + mb * c}"
      with m have p: "a12 \<le> p" "p < a22" "(p - a12) div (mb * c) = mm"
        by (simp_all add: a22)
      then show "0 \<le> p \<and> p < N \<and> f p = (mm, ln1)" using z by (simp add: f_def)
    next
      assume a: "0 \<le> p \<and> p < N \<and> f p = (mm, ln1)"
      have "a12 \<le> p \<and> p < a22"
      proof (rule ccontr)
        assume "\<not> (a12 \<le> p \<and> p < a22)"
        then consider "p < a21" | "a21 \<le> p" "p < a12" | "a22 \<le> p" using z by linarith
        then show False
        proof cases
          case 1 then show False using R1[of p] a by simp
        next
          case 2 then show False using R2[of p] a that by simp
        next
          case 3 then show False using R4[of p] a that by simp
        qed
      qed
      with a z have "(p - a12) div (mb * c) = mm" by (simp add: f_def)
      with \<open>a12 \<le> p \<and> p < a22\<close> m show "p \<in> {a12 + mb * c * mm ..< a12 + mb * c * mm + mb * c}"
        by (simp add: a22)
    qed
  qed
  have Z22: "(p \<in> {a22 ..< a22 + r * c}) = (0 \<le> p \<and> p < N \<and> f p = (lm1, ln1))"
    if "0 < r" "0 < c" for p
  proof
    assume "p \<in> {a22 ..< a22 + r * c}"
    then show "0 \<le> p \<and> p < N \<and> f p = (lm1, ln1)" using z N by (simp add: f_def)
  next
    assume a: "0 \<le> p \<and> p < N \<and> f p = (lm1, ln1)"
    have "a22 \<le> p"
    proof (rule ccontr)
      assume "\<not> a22 \<le> p"
      then consider "p < a21" | "a21 \<le> p" "p < a12" | "a12 \<le> p" "p < a22" by linarith
      then show False
      proof cases
        case 1 then show False using R1[of p] a by simp
      next
        case 2 then show False using R2[of p] a by simp
      next
        case 3 then show False using R3[of p] a by simp
      qed
    qed
    then show "p \<in> {a22 ..< a22 + r * c}" using a N by simp
  qed
  have tiles: "(p \<in> {(if mm < lm1
                        then (if nn < ln1 then mb * nb * (mm + lm1 * nn) else a12 + mb * c * mm)
                        else (if nn < ln1 then a21 + nb * r * nn else a22))
                       ..<
                       (if mm < lm1
                        then (if nn < ln1 then mb * nb * (mm + lm1 * nn) else a12 + mb * c * mm)
                        else (if nn < ln1 then a21 + nb * r * nn else a22))
                       + (if mm < lm1 then mb else r) * (if nn < ln1 then nb else c)})
                = (0 \<le> p \<and> p < N \<and> f p = (mm, nn))"
    if "0 \<le> mm" "mm < lm1 \<or> mm = lm1 \<and> 0 < r" "0 \<le> nn" "nn < ln1 \<or> nn = ln1 \<and> 0 < c"
    for mm nn p
  proof (cases "mm < lm1")
    case True
    show ?thesis
    proof (cases "nn < ln1")
      case True
      with \<open>mm < lm1\<close> that show ?thesis using Z11[of mm nn p] by simp
    next
      case False
      with \<open>mm < lm1\<close> that show ?thesis using Z12[of mm p] by simp
    qed
  next
    case False
    show ?thesis
    proof (cases "nn < ln1")
      case True
      with \<open>\<not> mm < lm1\<close> that show ?thesis using Z21[of nn p] by simp
    next
      case False
      with \<open>\<not> mm < lm1\<close> that show ?thesis using Z22[of p] by simp
    qed
  qed
  show ?thesis
    using tiles grid by (intro exI[of _ f]) blast
qed

lemma lmt_less_iff:
  fixes mm mb' lm' :: int
  assumes "0 < mb'" "0 \<le> lm'"
  shows "(mm < (lm' + mb' - 1) div mb') = (mm < lm' div mb' \<or> mm = lm' div mb' \<and> 0 < lm' mod mb')"
proof -
  have r: "0 \<le> lm' mod mb'" "lm' mod mb' < mb'" using assms by simp_all
  have e0: "lm' + mb' - 1 = (lm' mod mb' + mb' - 1) + mb' * (lm' div mb')" by simp
  have "(lm' + mb' - 1) div mb' = ((lm' mod mb' + mb' - 1) + mb' * (lm' div mb')) div mb'"
    by (rule arg_cong[OF e0, of "\<lambda>x. x div mb'"])
  also have "\<dots> = lm' div mb' + (lm' mod mb' + mb' - 1) div mb'"
    using assms by (simp only: div_mult_self2)
  finally have e: "(lm' + mb' - 1) div mb' = lm' div mb' + (lm' mod mb' + mb' - 1) div mb'" .
  show ?thesis
  proof (cases "lm' mod mb' = 0")
    case True
    then have "(lm' mod mb' + mb' - 1) div mb' = 0"
      using assms by (simp add: div_pos_pos_trivial)
    with e True show ?thesis by simp
  next
    case False
    with r have p: "0 < lm' mod mb'" by simp
    have "(mb' * 1 \<le> lm' mod mb' + mb' - 1 \<and> lm' mod mb' + mb' - 1 < mb' * 1 + mb')
          = ((lm' mod mb' + mb' - 1) div mb' = 1)"
      using assms(1) by (rule div_strip)
    then have "(lm' mod mb' + mb' - 1) div mb' = 1" using p r by simp
    with e p show ?thesis by auto
  qed
qed

lemma valid_fields:
  assumes "desc_general_valid A"
  shows "0 < mb A" "0 < nb A" "0 \<le> lm A" "0 \<le> ln A" "0 \<le> desc_i A" "0 \<le> desc_j A"
    "0 \<le> desc_m A" "0 \<le> desc_n A" "desc_i A + desc_m A \<le> lm A" "desc_j A + desc_n A \<le> ln A"
    "desc_type A = PlasmaGeneral"
    "lmt A = (lm A + mb A - 1) div mb A" "lnt A = (ln A + nb A - 1) div nb A"
    "mt A = (desc_i A mod mb A + desc_m A + mb A - 1) div mb A"
    "nt A = (desc_j A mod nb A + desc_n A + nb A - 1) div nb A"
    "A21 A = mb A * nb A * ((lm A div mb A) * (ln A div nb A))"
    "A12 A = mb A * nb A * ((lm A div mb A) * (ln A div nb A)) + nb A * (lm A mod mb A) * (ln A div nb A)"
    "A22 A = mb A * nb A * ((lm A div mb A) * (ln A div nb A)) + nb A * (lm A mod mb A) * (ln A div nb A)
             + mb A * (ln A mod nb A) * (lm A div mb A)"
    "lm A * ln A = mb A * nb A * ((lm A div mb A) * (ln A div nb A)) + nb A * (lm A mod mb A) * (ln A div nb A)
             + mb A * (ln A mod nb A) * (lm A div mb A) + lm A mod mb A * (ln A mod nb A)"
proof -
  from assms have b: "1 \<le> mb A" "1 \<le> nb A" "0 \<le> lm A" "0 \<le> ln A" "0 \<le> desc_i A" "0 \<le> desc_j A"
    "0 \<le> desc_m A" "0 \<le> desc_n A" "desc_i A + desc_m A \<le> lm A" "desc_j A + desc_n A \<le> ln A"
    and eq: "A = plasma_desc_general_init (precision A) (matrix A) (mb A) (nb A) (lm A) (ln A)
              (desc_i A) (desc_j A) (desc_m A) (desc_n A)"
    by (simp_all add: desc_general_valid_def)
  show "0 < mb A" "0 < nb A" "0 \<le> lm A" "0 \<le> ln A" "0 \<le> desc_i A" "0 \<le> desc_j A"
    "0 \<le> desc_m A" "0 \<le> desc_n A" "desc_i A + desc_m A \<le> lm A" "desc_j A + desc_n A \<le> ln A"
    using b by simp_all
  have mr: "0 \<le> lm A mod mb A" "0 \<le> ln A mod nb A" "0 \<le> desc_i A mod mb A" "0 \<le> desc_j A mod nb A"
    using b by simp_all
  have sm: "lm A smod mb A = lm A mod mb A" "ln A smod nb A = ln A mod nb A"
    "desc_i A smod mb A = desc_i A mod mb A" "desc_j A smod nb A = desc_j A mod nb A"
    using b by (simp_all add: smod_nonneg_eq)
  have lmr: "lm A - lm A mod mb A = mb A * (lm A div mb A)"
    and lnr: "ln A - ln A mod nb A = nb A * (ln A div nb A)"
    by (simp_all add: minus_mod_eq_mult_div)
  show "desc_type A = PlasmaGeneral"
    using arg_cong[OF eq, of desc_type] by (simp add: plasma_desc_general_init_def Let_def)
  have "lmt A = (lm A + mb A - 1) sdiv mb A"
    using arg_cong[OF eq, of lmt] by (simp add: plasma_desc_general_init_def Let_def)
  then show "lmt A = (lm A + mb A - 1) div mb A" using b by (simp add: sdiv_nonneg_eq)
  have "lnt A = (ln A + nb A - 1) sdiv nb A"
    using arg_cong[OF eq, of lnt] by (simp add: plasma_desc_general_init_def Let_def)
  then show "lnt A = (ln A + nb A - 1) div nb A" using b by (simp add: sdiv_nonneg_eq)
  have "mt A = (desc_i A smod mb A + desc_m A + mb A - 1) sdiv mb A"
    using arg_cong[OF eq, of mt] by (simp add: plasma_desc_general_init_def Let_def)
  then show "mt A = (desc_i A mod mb A + desc_m A + mb A - 1) div mb A"
    using b mr by (simp add: sm sdiv_nonneg_eq)
  have "nt A = (desc_j A smod nb A + desc_n A + nb A - 1) sdiv nb A"
    using arg_cong[OF eq, of nt] by (simp add: plasma_desc_general_init_def Let_def)
  then show "nt A = (desc_j A mod nb A + desc_n A + nb A - 1) div nb A"
    using b mr by (simp add: sm sdiv_nonneg_eq)
  have r21: "A21 A = (lm A - lm A smod mb A) * (ln A - ln A smod nb A)"
    using arg_cong[OF eq, of A21] by (simp add: plasma_desc_general_init_def Let_def)
  then show a21: "A21 A = mb A * nb A * ((lm A div mb A) * (ln A div nb A))"
    by (simp add: sm lmr lnr algebra_simps)
  have r12: "A12 A = (lm A smod mb A) * (ln A - ln A smod nb A) + A21 A"
    using arg_cong[OF eq, of A12] r21 by (simp add: plasma_desc_general_init_def Let_def)
  then show a12: "A12 A = mb A * nb A * ((lm A div mb A) * (ln A div nb A))
      + nb A * (lm A mod mb A) * (ln A div nb A)"
    by (simp add: sm lnr a21 algebra_simps)
  have "A22 A = (lm A - lm A smod mb A) * (ln A smod nb A) + A12 A"
    using arg_cong[OF eq, of A22] r12 r21 by (simp add: plasma_desc_general_init_def Let_def)
  then show "A22 A = mb A * nb A * ((lm A div mb A) * (ln A div nb A))
      + nb A * (lm A mod mb A) * (ln A div nb A) + mb A * (ln A mod nb A) * (lm A div mb A)"
    by (simp add: sm lmr a12 algebra_simps)
  have "lm A * ln A = (mb A * (lm A div mb A) + lm A mod mb A) * (nb A * (ln A div nb A) + ln A mod nb A)"
    by simp
  then show "lm A * ln A = mb A * nb A * ((lm A div mb A) * (ln A div nb A))
      + nb A * (lm A mod mb A) * (ln A div nb A)
      + mb A * (ln A mod nb A) * (lm A div mb A) + lm A mod mb A * (ln A mod nb A)"
    by (simp only: algebra_simps)
qed

lemma plasma_element_size_pos: "plasma_element_size t = Some e \<Longrightarrow> 0 < e"
  by (auto simp: plasma_element_size_def split: if_splits)

lemma in_grid_iff:
  assumes "desc_general_valid A"
  shows "in_grid A tm tn =
     (0 \<le> tm + desc_i A div mb A
      \<and> (tm + desc_i A div mb A < lm A div mb A
           \<or> tm + desc_i A div mb A = lm A div mb A \<and> 0 < lm A mod mb A)
      \<and> 0 \<le> tn + desc_j A div nb A
      \<and> (tn + desc_j A div nb A < ln A div nb A
           \<or> tn + desc_j A div nb A = ln A div nb A \<and> 0 < ln A mod nb A))"
proof -
  note v = valid_fields[OF assms]
  show ?thesis
    unfolding in_grid_def v(12,13)
    using v(1-6) by (simp add: sdiv_nonneg_eq lmt_less_iff)
qed

lemma tile_elems_grid:
  assumes "desc_general_valid A"
  shows "tile_elems A tm tn =
     {(if tm + desc_i A div mb A < lm A div mb A
       then (if tn + desc_j A div nb A < ln A div nb A
             then mb A * nb A * ((tm + desc_i A div mb A) + lm A div mb A * (tn + desc_j A div nb A))
             else A12 A + mb A * (ln A mod nb A) * (tm + desc_i A div mb A))
       else (if tn + desc_j A div nb A < ln A div nb A
             then A21 A + nb A * (lm A mod mb A) * (tn + desc_j A div nb A)
             else A22 A))
      ..<
      (if tm + desc_i A div mb A < lm A div mb A
       then (if tn + desc_j A div nb A < ln A div nb A
             then mb A * nb A * ((tm + desc_i A div mb A) + lm A div mb A * (tn + desc_j A div nb A))
             else A12 A + mb A * (ln A mod nb A) * (tm + desc_i A div mb A))
       else (if tn + desc_j A div nb A < ln A div nb A
             then A21 A + nb A * (lm A mod mb A) * (tn + desc_j A div nb A)
             else A22 A))
      + (if tm + desc_i A div mb A < lm A div mb A then mb A else lm A mod mb A)
        * (if tn + desc_j A div nb A < ln A div nb A then nb A else ln A mod nb A)}"
proof -
  note v = valid_fields[OF assms]
  show ?thesis
    using v(1-6)
    by (simp add: tile_elems_def tile_offset_general_def plasma_tile_mmain_def
        plasma_tile_nmain_def Let_def sdiv_nonneg_eq smod_nonneg_eq)
qed

lemma tile_elems_locator:
  assumes "desc_general_valid A"
  shows "\<exists>g. (\<forall>tm tn p. in_grid A tm tn \<longrightarrow>
                 (p \<in> tile_elems A tm tn) = (0 \<le> p \<and> p < lm A * ln A \<and> g p = (tm, tn)))
           \<and> (\<forall>p. 0 \<le> p \<and> p < lm A * ln A \<longrightarrow> in_grid A (fst (g p)) (snd (g p)))"
proof -
  note v = valid_fields[OF assms]
  have nn: "0 \<le> lm A div mb A" "0 \<le> ln A div nb A" "0 \<le> lm A mod mb A" "0 \<le> ln A mod nb A"
    using v(1-4) by (simp_all add: pos_imp_zdiv_nonneg_iff)
  have a12: "A21 A + nb A * (lm A mod mb A) * (ln A div nb A) = A12 A"
    using v(16,17) by simp
  have a22: "A12 A + mb A * (ln A mod nb A) * (lm A div mb A) = A22 A"
    using v(17,18) by simp
  have N: "A22 A + lm A mod mb A * (ln A mod nb A) = lm A * ln A"
    using v(18,19) by simp
  note L = layout_locator[OF v(1) v(2) nn, unfolded v(16)[symmetric] a12 a22 N]
  from L obtain f where
    F: "(\<forall>mm nn p. 0 \<le> mm \<and> (mm < lm A div mb A \<or> mm = lm A div mb A \<and> 0 < lm A mod mb A)
                     \<and> 0 \<le> nn \<and> (nn < ln A div nb A \<or> nn = ln A div nb A \<and> 0 < ln A mod nb A) \<longrightarrow>
          (p \<in> {(if mm < lm A div mb A
                  then (if nn < ln A div nb A then mb A * nb A * (mm + lm A div mb A * nn)
                        else A12 A + mb A * (ln A mod nb A) * mm)
                  else (if nn < ln A div nb A then A21 A + nb A * (lm A mod mb A) * nn else A22 A))
                 ..<
                 (if mm < lm A div mb A
                  then (if nn < ln A div nb A then mb A * nb A * (mm + lm A div mb A * nn)
                        else A12 A + mb A * (ln A mod nb A) * mm)
                  else (if nn < ln A div nb A then A21 A + nb A * (lm A mod mb A) * nn else A22 A))
                 + (if mm < lm A div mb A then mb A else lm A mod mb A)
                   * (if nn < ln A div nb A then nb A else ln A mod nb A)})
          = (0 \<le> p \<and> p < lm A * ln A \<and> f p = (mm, nn)))
       \<and> (\<forall>p. 0 \<le> p \<and> p < lm A * ln A \<longrightarrow>
          0 \<le> fst (f p) \<and> (fst (f p) < lm A div mb A \<or> fst (f p) = lm A div mb A \<and> 0 < lm A mod mb A)
          \<and> 0 \<le> snd (f p) \<and> (snd (f p) < ln A div nb A \<or> snd (f p) = ln A div nb A \<and> 0 < ln A mod nb A))" ..
  note f1 = F[THEN conjunct1, rule_format]
  note f2 = F[THEN conjunct2, rule_format]
  define g where "g p = (fst (f p) - desc_i A div mb A, snd (f p) - desc_j A div nb A)" for p
  have 1: "(p \<in> tile_elems A tm tn) = (0 \<le> p \<and> p < lm A * ln A \<and> g p = (tm, tn))"
    if "in_grid A tm tn" for tm tn p
  proof -
    have "(p \<in> tile_elems A tm tn)
          = (0 \<le> p \<and> p < lm A * ln A \<and> f p = (tm + desc_i A div mb A, tn + desc_j A div nb A))"
      unfolding tile_elems_grid[OF assms]
      using that by (intro f1) (simp add: in_grid_iff[OF assms])
    also have "(f p = (tm + desc_i A div mb A, tn + desc_j A div nb A)) = (g p = (tm, tn))"
      by (auto simp: g_def prod_eq_iff)
    finally show ?thesis .
  qed
  have 2: "in_grid A (fst (g p)) (snd (g p))" if "0 \<le> p \<and> p < lm A * ln A" for p
    using f2[OF that] by (simp add: in_grid_iff[OF assms] g_def)
  show ?thesis using 1 2 by (intro exI[of _ g]) blast
qed

lemma tile_bytes_elems:
  assumes "desc_general_valid A" "plasma_element_size (precision A) = Some e"
  shows "(x \<in> tile_bytes A tm tn) = ((x - matrix A) div e \<in> tile_elems A tm tn)"
proof -
  note v = valid_fields[OF assms(1)]
  have e: "0 < e" using assms(2) by (rule plasma_element_size_pos)
  let ?o = "tile_offset_general A tm tn"
  let ?s = "plasma_tile_mmain A tm * plasma_tile_nmain A tn"
  have "(x \<in> tile_bytes A tm tn) = (?o * e \<le> x - matrix A \<and> x - matrix A < (?o + ?s) * e)"
    using assms(2) v(11)
    by (auto simp: tile_bytes_def plasma_tile_addr_def plasma_tile_addr_general_def algebra_simps)
  also have "\<dots> = (?o \<le> (x - matrix A) div e \<and> (x - matrix A) div e < ?o + ?s)"
    using e by (rule scale_mem)
  finally show ?thesis by (simp add: tile_elems_def)
qed

lemma backing_store_elems:
  assumes "plasma_element_size (precision A) = Some e"
  shows "(x \<in> backing_store A) = (0 \<le> (x - matrix A) div e \<and> (x - matrix A) div e < lm A * ln A)"
proof -
  have e: "0 < e" using assms by (rule plasma_element_size_pos)
  have "(x \<in> backing_store A) = (0 * e \<le> x - matrix A \<and> x - matrix A < (lm A * ln A) * e)"
    using assms by (auto simp: backing_store_def)
  also have "\<dots> = (0 \<le> (x - matrix A) div e \<and> (x - matrix A) div e < lm A * ln A)"
    using e by (rule scale_mem)
  finally show ?thesis .
qed

lemma in_view_in_grid:
  assumes "desc_general_valid A" "in_view A tm tn"
  shows "in_grid A tm tn"
proof -
  note v = valid_fields[OF assms(1)]
  have bound: "t + i' div b < (l + b - 1) div b"
    if "0 < b" "0 \<le> i'" "i' + m' \<le> l" "t < (i' mod b + m' + b - 1) div b" for t i' m' l b :: int
  proof -
    have e0: "i' + m' + b - 1 = (i' mod b + m' + b - 1) + b * (i' div b)" by simp
    have "(i' + m' + b - 1) div b = ((i' mod b + m' + b - 1) + b * (i' div b)) div b"
      by (rule arg_cong[OF e0, of "\<lambda>x. x div b"])
    also have "\<dots> = i' div b + (i' mod b + m' + b - 1) div b"
      using that(1) by (simp only: div_mult_self2)
    finally have "t + i' div b < (i' + m' + b - 1) div b" using that(4) by simp
    also have "\<dots> \<le> (l + b - 1) div b"
      using that(1,3) by (intro zdiv_mono1) simp_all
    finally show ?thesis .
  qed
  have "0 \<le> desc_i A div mb A" "0 \<le> desc_j A div nb A"
    using v(1,2,5,6) by (simp_all add: pos_imp_zdiv_nonneg_iff)
  moreover have "tm + desc_i A div mb A < lmt A"
    unfolding v(12) using v(1,5,9) assms(2) by (intro bound[of _ _ "desc_m A"]) (simp_all add: in_view_def v(14))
  moreover have "tn + desc_j A div nb A < lnt A"
    unfolding v(13) using v(2,6,10) assms(2) by (intro bound[of _ _ "desc_n A"]) (simp_all add: in_view_def v(15))
  ultimately show ?thesis
    using assms(2) v(1,2,5,6) by (simp add: in_grid_def in_view_def sdiv_nonneg_eq)
qed

text \<open>
  Claim C2, amended. For every valid general descriptor, two distinct tiles of the
  tile grid of \<open>lmt\<close> by \<open>lnt\<close> tiles, in particular two distinct in-range tiles of
  the view, occupy disjoint byte ranges, and the byte ranges of all tiles of the grid
  together are exactly the backing store. The in-range tiles of the view are tiles of
  the grid; their byte ranges together are the backing store when the view spans the
  whole grid (\<open>i < mb\<close>, \<open>j < nb\<close>, \<open>mt = lmt\<close>, \<open>nt = lnt\<close>).
\<close>

theorem tile_bytes_partition_grid:
  assumes "desc_general_valid A"
  shows "(\<forall>tm tn tm' tn'. in_grid A tm tn \<and> in_grid A tm' tn' \<and> (tm, tn) \<noteq> (tm', tn') \<longrightarrow>
            tile_bytes A tm tn \<inter> tile_bytes A tm' tn' = {})
       \<and> (\<Union>t \<in> {t. in_grid A (fst t) (snd t)}. tile_bytes A (fst t) (snd t)) = backing_store A
       \<and> (\<forall>tm tn. in_view A tm tn \<longrightarrow> in_grid A tm tn)
       \<and> (desc_i A < mb A \<and> desc_j A < nb A \<and> mt A = lmt A \<and> nt A = lnt A \<longrightarrow>
            (\<Union>t \<in> {t. in_view A (fst t) (snd t)}. tile_bytes A (fst t) (snd t)) = backing_store A)"
proof -
  note v = valid_fields[OF assms]
  from assms obtain e where e: "plasma_element_size (precision A) = Some e"
    by (auto simp: desc_general_valid_def)
  from tile_elems_locator[OF assms] obtain g where
    g1: "\<And>tm tn p. in_grid A tm tn \<Longrightarrow>
           (p \<in> tile_elems A tm tn) = (0 \<le> p \<and> p < lm A * ln A \<and> g p = (tm, tn))"
    and g2: "\<And>p. 0 \<le> p \<and> p < lm A * ln A \<Longrightarrow> in_grid A (fst (g p)) (snd (g p))"
    by blast
  have disj: "tile_bytes A tm tn \<inter> tile_bytes A tm' tn' = {}"
    if "in_grid A tm tn" "in_grid A tm' tn'" "(tm, tn) \<noteq> (tm', tn')" for tm tn tm' tn'
  proof (rule ccontr)
    assume "tile_bytes A tm tn \<inter> tile_bytes A tm' tn' \<noteq> {}"
    then obtain x where "x \<in> tile_bytes A tm tn" "x \<in> tile_bytes A tm' tn'" by blast
    then have "(x - matrix A) div e \<in> tile_elems A tm tn" "(x - matrix A) div e \<in> tile_elems A tm' tn'"
      by (simp_all add: tile_bytes_elems[OF assms e])
    then have "g ((x - matrix A) div e) = (tm, tn)" "g ((x - matrix A) div e) = (tm', tn')"
      using that by (simp_all add: g1)
    with that(3) show False by simp
  qed
  have cover: "(\<Union>t \<in> {t. in_grid A (fst t) (snd t)}. tile_bytes A (fst t) (snd t)) = backing_store A"
  proof (intro set_eqI iffI)
    fix x
    assume "x \<in> (\<Union>t \<in> {t. in_grid A (fst t) (snd t)}. tile_bytes A (fst t) (snd t))"
    then obtain t where t: "in_grid A (fst t) (snd t)" "x \<in> tile_bytes A (fst t) (snd t)" by blast
    then have "(x - matrix A) div e \<in> tile_elems A (fst t) (snd t)"
      by (simp add: tile_bytes_elems[OF assms e])
    then have "0 \<le> (x - matrix A) div e \<and> (x - matrix A) div e < lm A * ln A"
      using t(1) by (simp add: g1)
    then show "x \<in> backing_store A" by (simp add: backing_store_elems[OF e])
  next
    fix x
    assume "x \<in> backing_store A"
    then have p: "0 \<le> (x - matrix A) div e \<and> (x - matrix A) div e < lm A * ln A"
      by (simp add: backing_store_elems[OF e])
    let ?t = "g ((x - matrix A) div e)"
    have t: "in_grid A (fst ?t) (snd ?t)" using p by (rule g2)
    then have "(x - matrix A) div e \<in> tile_elems A (fst ?t) (snd ?t)"
      using p by (simp add: g1)
    then have "x \<in> tile_bytes A (fst ?t) (snd ?t)"
      by (simp add: tile_bytes_elems[OF assms e])
    with t show "x \<in> (\<Union>t \<in> {t. in_grid A (fst t) (snd t)}. tile_bytes A (fst t) (snd t))"
      by blast
  qed
  have whole: "in_view A tm tn = in_grid A tm tn"
    if "desc_i A < mb A \<and> desc_j A < nb A \<and> mt A = lmt A \<and> nt A = lnt A" for tm tn
    using that v(1,2,5,6) by (simp add: in_view_def in_grid_def sdiv_nonneg_eq div_pos_pos_trivial)
  show ?thesis
    using disj cover in_view_in_grid[OF assms] whole by simp
qed

lemma view_3x2_valid: "desc_general_valid view_3x2"
  by (simp add: desc_general_valid_def view_3x2_def plasma_desc_general_init_def
      plasma_element_size_def)

theorem tile_bytes_partition_grid_witness:
  "desc_general_valid view_3x2
   \<and> in_grid view_3x2 0 0 \<and> in_grid view_3x2 1 0
   \<and> tile_bytes view_3x2 0 0 \<inter> tile_bytes view_3x2 1 0 = {}
   \<and> (\<Union>t \<in> {t. in_grid view_3x2 (fst t) (snd t)}. tile_bytes view_3x2 (fst t) (snd t))
       = backing_store view_3x2"
proof -
  have g: "in_grid view_3x2 0 0" "in_grid view_3x2 1 0"
    by (simp_all add: in_grid_def view_3x2_def plasma_desc_general_init_def sdiv_nonneg_eq)
  have n: "((0::int), (0::int)) \<noteq> (1, 0)" by simp
  note t = tile_bytes_partition_grid[OF view_3x2_valid]
  have d: "tile_bytes view_3x2 0 0 \<inter> tile_bytes view_3x2 1 0 = {}"
    using t[THEN conjunct1, rule_format, of 0 0 1 0] g n by simp
  have c: "(\<Union>t \<in> {t. in_grid view_3x2 (fst t) (snd t)}. tile_bytes view_3x2 (fst t) (snd t))
     = backing_store view_3x2"
    by (rule t[THEN conjunct2, THEN conjunct1])
  show ?thesis using view_3x2_valid g d c by (intro conjI)
qed

text \<open>
  Claim C2, as the spec states it: for every valid descriptor the byte ranges of the
  in-range tiles together are exactly the backing store. The descriptor \<open>view_2x2\<close> is
  a valid view of the leading 2 by 2 block of a 4 by 4 matrix of doubles in tiles of
  2 by 2: its only in-range tile is \<open>(0, 0)\<close>, 32 bytes, and its backing store has 128
  bytes.
\<close>

theorem tile_bytes_view_counterexample:
  "desc_general_valid view_2x2
   \<and> mt view_2x2 = 1 \<and> nt view_2x2 = 1
   \<and> tile_bytes view_2x2 0 0 = {0 ..< 32}
   \<and> backing_store view_2x2 = {0 ..< 128}
   \<and> (\<Union>t \<in> {t. in_view view_2x2 (fst t) (snd t)}. tile_bytes view_2x2 (fst t) (snd t))
       \<noteq> backing_store view_2x2"
proof -
  have v: "desc_general_valid view_2x2"
    by (simp add: desc_general_valid_def view_2x2_def plasma_desc_general_init_def
        plasma_element_size_def)
  have m: "mt view_2x2 = 1" "nt view_2x2 = 1"
    by (simp_all add: view_2x2_def plasma_desc_general_init_def)
  have t: "tile_bytes view_2x2 0 0 = {0 ..< 32}"
    by (simp add: tile_bytes_def plasma_tile_addr_def plasma_tile_addr_general_def
        tile_offset_general_def plasma_tile_mmain_def plasma_tile_nmain_def
        plasma_element_size_def view_2x2_def plasma_desc_general_init_def)
  have b: "backing_store view_2x2 = {0 ..< 128}"
    by (simp add: backing_store_def plasma_element_size_def view_2x2_def
        plasma_desc_general_init_def)
  have "in_view view_2x2 (fst t) (snd t) = (t = (0, 0))" for t
    using m by (cases t) (auto simp: in_view_def)
  then have "{t. in_view view_2x2 (fst t) (snd t)} = {(0, 0)}"
    by simp
  then have u: "(\<Union>t \<in> {t. in_view view_2x2 (fst t) (snd t)}. tile_bytes view_2x2 (fst t) (snd t))
      = {0 ..< 32}"
    using t by simp
  have "(100::int) \<in> {0 ..< 128}" "(100::int) \<notin> {0 ..< 32}" by simp_all
  then have "{0 ..< 32} \<noteq> {0 ..< (128::int)}" by blast
  then have "(\<Union>t \<in> {t. in_view view_2x2 (fst t) (snd t)}. tile_bytes view_2x2 (fst t) (snd t))
      \<noteq> backing_store view_2x2"
    unfolding u b .
  with v m t b show ?thesis by (intro conjI)
qed

section \<open>Kernel shapes on a descriptor that starts at the origin\<close>

lemma filter_range_upto:
  "filter (\<lambda>r. a \<le> r \<and> r \<le> b) [lo .. hi] = [max lo a .. min hi (b::int)]"
proof (induction lo hi rule: upto.induct)
  case (1 i j)
  show ?case
  proof (cases "i \<le> j")
    case True
    then have e: "[i .. j] = i # [i + 1 .. j]" by (simp add: upto_rec1)
    have IH: "filter (\<lambda>r. a \<le> r \<and> r \<le> b) [i + 1 .. j] = [max (i + 1) a .. min j b]"
      using 1[OF True] .
    show ?thesis
    proof (cases "a \<le> i \<and> i \<le> b")
      case T2: True
      have m1: "max i a = i" "max (i + 1) a = i + 1" using T2 by simp_all
      have "i \<le> min j b" using T2 True by simp
      then have "[i .. min j b] = i # [i + 1 .. min j b]" by (simp add: upto_rec1)
      then show ?thesis unfolding e using IH T2 m1 by simp
    next
      case False
      then consider "i < a" | "b < i" by linarith
      then show ?thesis
      proof cases
        case 1
        then have "max (i + 1) a = max i a" by simp
        then show ?thesis unfolding e using IH 1 by simp
      next
        case 2
        then have "[max i a .. min j b] = []" "[max (i + 1) a .. min j b] = []" by simp_all
        then show ?thesis unfolding e using IH 2 by simp
      qed
    qed
  next
    case False
    then show ?thesis by simp
  qed
qed

lemma count_in_tile:
  fixes s k m :: int
  assumes "0 < s" "0 \<le> k"
  shows "int (length (filter (\<lambda>r. r sdiv s = k) [0 .. m - 1]))
         = max 0 (min s (m - s * k))"
proof -
  have "(r sdiv s = k) = (s * k \<le> r \<and> r \<le> s * k + s - 1)" if "r \<in> set [0 .. m - 1]" for r
  proof -
    from that have "0 \<le> r" by simp
    then have "r sdiv s = r div s" using assms(1) by (simp add: sdiv_nonneg_eq)
    moreover have "(r div s = k) = (s * k \<le> r \<and> r < s * k + s)"
      using div_strip[OF assms(1), of k r] by simp
    ultimately show ?thesis by auto
  qed
  then have "filter (\<lambda>r. r sdiv s = k) [0 .. m - 1]
        = filter (\<lambda>r. s * k \<le> r \<and> r \<le> s * k + s - 1) [0 .. m - 1]"
    by (intro filter_cong refl)
  also have "\<dots> = [max 0 (s * k) .. min (m - 1) (s * k + s - 1)]"
    by (rule filter_range_upto)
  finally have "int (length (filter (\<lambda>r. r sdiv s = k) [0 .. m - 1]))
        = int (nat (min (m - 1) (s * k + s - 1) - max 0 (s * k) + 1))"
    by simp
  moreover have "0 \<le> s * k" using assms by simp
  ultimately show ?thesis by (simp add: max_def min_def)
qed

lemma origin_extent:
  fixes s k m :: int
  assumes "0 < s" "0 \<le> k" "0 \<le> m" "k < (m + s - 1) div s"
  shows "(if k < m div s then s else m mod s) = max 0 (min s (m - s * k))"
proof (cases "k < m div s")
  case True
  then have "k + 1 \<le> m div s" by simp
  then have "s * (k + 1) \<le> s * (m div s)"
    using assms(1) by (simp only: mult_le_cancel_left_pos)
  moreover have "s * (k + 1) = s * k + s" by (simp add: algebra_simps)
  moreover have "m = s * (m div s) + m mod s" by simp
  moreover have "0 \<le> m mod s" using assms(1) by simp
  ultimately have "s \<le> m - s * k" by linarith
  then show ?thesis using True assms(1) by simp
next
  case False
  have "(m + s - 1) div s \<le> (m + s) div s"
    using assms(1) by (intro zdiv_mono1) simp_all
  also have "\<dots> = m div s + 1" using assms(1) by simp
  finally have "k \<le> m div s" using assms(4) by simp
  with False have eq: "k = m div s" by simp
  have "m - s * k = m mod s" unfolding eq by (simp add: minus_mult_div_eq_mod)
  moreover have "0 \<le> m mod s" "m mod s < s" using assms(1) by simp_all
  ultimately show ?thesis using False by simp
qed


text \<open>
  On a descriptor whose submatrix starts at the origin of the matrix, \<open>plasma_tile_mview\<close>
  and \<open>plasma_tile_nview\<close> are the number of rows and of columns of the submatrix in
  the tile row and the tile column.
\<close>

lemma plasma_tile_mview_origin:
  assumes "0 < mb A" "desc_i A = 0" "0 \<le> desc_m A" "0 \<le> k" "k < mt A"
    and "mt A = (desc_m A + mb A - 1) sdiv mb A"
  shows "plasma_tile_mview A k = view_rows_in_tile A k"
proof -
  have k: "k < (desc_m A + mb A - 1) div mb A"
    using assms by (simp add: sdiv_nonneg_eq)
  have "view_rows_in_tile A k = max 0 (min (mb A) (desc_m A - mb A * k))"
    using count_in_tile[OF assms(1,4), of "desc_m A"] assms(1,2)
    by (simp add: view_rows_in_tile_def sdiv_nonneg_eq)
  also have "\<dots> = (if k < desc_m A div mb A then mb A else desc_m A mod mb A)"
    using origin_extent[OF assms(1,4,3) k] by simp
  also have "\<dots> = plasma_tile_mview A k"
    using assms(1,2,3) by (simp add: plasma_tile_mview_def sdiv_nonneg_eq smod_nonneg_eq)
  finally show ?thesis by simp
qed

lemma plasma_tile_nview_origin:
  assumes "0 < nb A" "desc_j A = 0" "0 \<le> desc_n A" "0 \<le> k" "k < nt A"
    and "nt A = (desc_n A + nb A - 1) sdiv nb A"
  shows "plasma_tile_nview A k = view_cols_in_tile A k"
proof -
  have k: "k < (desc_n A + nb A - 1) div nb A"
    using assms by (simp add: sdiv_nonneg_eq)
  have "view_cols_in_tile A k = max 0 (min (nb A) (desc_n A - nb A * k))"
    using count_in_tile[OF assms(1,4), of "desc_n A"] assms(1,2)
    by (simp add: view_cols_in_tile_def sdiv_nonneg_eq)
  also have "\<dots> = (if k < desc_n A div nb A then nb A else desc_n A mod nb A)"
    using origin_extent[OF assms(1,4,3) k] by simp
  also have "\<dots> = plasma_tile_nview A k"
    using assms(1,2,3) by (simp add: plasma_tile_nview_def sdiv_nonneg_eq smod_nonneg_eq)
  finally show ?thesis by simp
qed

text \<open>
  So on such a descriptor \<open>C\<close> and a successful sequence, with \<open>alpha = 0\<close> or an inner
  dimension 0, the submissions of \<open>plasma_pzgemm\<close> for the tile \<open>(m, n)\<close> replace
  every entry \<open>c\<close> of the part of the submatrix in the tile by \<open>beta \<cdot> c\<close>.
\<close>

lemma plasma_pzgemm_scales_origin_tile:
  assumes "seq_status sequence = PlasmaSuccess" "0 \<le> m" "m < mt C" "0 \<le> n" "n < nt C"
    and "0 < mb C" "desc_i C = 0" "0 \<le> desc_m C" "mt C = (desc_m C + mb C - 1) sdiv mb C"
    and "0 < nb C" "desc_j C = 0" "0 \<le> desc_n C" "nt C = (desc_n C + nb C - 1) sdiv nb C"
    and "alpha = 0 \<or> (if transA = PlasmaNoTrans then desc_n A else desc_m A) = 0"
  shows "fold (\<lambda>c. core_omp_zgemm c a b)
           (zgemm_calls_on (snd (plasma_pzgemm transA transB alpha A B beta C sequence request)) m n)
           t
         = (\<lambda>r s. if int r < view_rows_in_tile C m \<and> int s < view_cols_in_tile C n
                   then beta * t r s else t r s)"
proof -
  have calls: "zgemm_calls_on
                 (snd (plasma_pzgemm transA transB alpha A B beta C sequence request)) m n
               = pzgemm_tile transA transB alpha A B beta C m n"
    using assms(1-5) by (rule zgemm_calls_on_pzgemm)
  have mv: "plasma_tile_mview C m = view_rows_in_tile C m"
    using assms(6,7,8,2,3,9) by (rule plasma_tile_mview_origin)
  have nv: "plasma_tile_nview C n = view_cols_in_tile C n"
    using assms(10,11,12,4,5,13) by (rule plasma_tile_nview_origin)
  show ?thesis
    unfolding calls using assms(14)
    by (auto simp: pzgemm_tile_def Let_def core_omp_zgemm_def zgemm_entry_def mv nv fun_eq_iff)
qed

section \<open>Round trip of the layout translation\<close>

text \<open>
  Claim C1. Translating a column-major matrix to tiles and back reproduces every
  element of the submatrix, also for a view whose origin is not a multiple of the tile
  size. On \<open>view_3x2\<close> (columns 1 and 2 of a 3 by 4 matrix, \<open>mb = nb = 2\<close>, \<open>lda = 3\<close>)
  the element \<open>(2, 1)\<close> of the matrix, index 5 of \<open>pA\<close>, is lost: the tile \<open>(1, 0)\<close>
  has leading dimension 1, its column \<open>x1 = 1\<close> is placed at \<open>x1 \<cdot> nb = 2\<close> elements
  from the start of the tile, which is the first element of tile \<open>(1, 1)\<close>, and the
  copy of tile \<open>(1, 1)\<close> overwrites it. The round trip returns 8 in the place of 5,
  and two matrices that differ in that element have the same tiles. Here \<open>pA\<close> is the
  3 by 4 matrix, which the code indexes from the origin of the first tile of the view;
  an array that holds only the 3 by 2 submatrix is read past its end.
\<close>

theorem layout_round_trip_fractional_origin:
  "layout_round_trip [0, 1, 2, 3, 4, 5, 6, 7, 8, 9, 10, 11 :: int] 3 view_3x2
       ok_sequence ok_request (replicate 12 (- 1)) (replicate 12 (- 1))
     = Some [- 1, - 1, - 1, 3, 4, 8, 6, 7, 8, - 1, - 1, - 1]
   \<and> plasma_pdge2desc [0, 1, 2, 3, 4, 5, 6, 7, 8, 9, 10, 11 :: int] 3 view_3x2
       ok_sequence ok_request (replicate 12 (- 1))
     = Some [- 1, - 1, 3, 4, 6, 7, - 1, - 1, - 1, - 1, 8, - 1]
   \<and> plasma_pdge2desc [0, 1, 2, 3, 4, 55, 6, 7, 8, 9, 10, 11 :: int] 3 view_3x2
       ok_sequence ok_request (replicate 12 (- 1))
     = Some [- 1, - 1, 3, 4, 6, 7, - 1, - 1, - 1, - 1, 8, - 1]
   \<and> plasma_pdge2desc [3, 4, 5, 6, 7, 8 :: int] 3 view_3x2
       ok_sequence ok_request (replicate 12 (- 1))
     = None"
proof (intro conjI)
  show "layout_round_trip [0, 1, 2, 3, 4, 5, 6, 7, 8, 9, 10, 11 :: int] 3 view_3x2
       ok_sequence ok_request (replicate 12 (- 1)) (replicate 12 (- 1))
     = Some [- 1, - 1, - 1, 3, 4, 8, 6, 7, 8, - 1, - 1, - 1]"
    by code_simp
  show "plasma_pdge2desc [0, 1, 2, 3, 4, 5, 6, 7, 8, 9, 10, 11 :: int] 3 view_3x2
       ok_sequence ok_request (replicate 12 (- 1))
     = Some [- 1, - 1, 3, 4, 6, 7, - 1, - 1, - 1, - 1, 8, - 1]"
    by code_simp
  show "plasma_pdge2desc [0, 1, 2, 3, 4, 55, 6, 7, 8, 9, 10, 11 :: int] 3 view_3x2
       ok_sequence ok_request (replicate 12 (- 1))
     = Some [- 1, - 1, 3, 4, 6, 7, - 1, - 1, - 1, - 1, 8, - 1]"
    by code_simp
  show "plasma_pdge2desc [3, 4, 5, 6, 7, 8 :: int] 3 view_3x2
       ok_sequence ok_request (replicate 12 (- 1))
     = None"
    by code_simp
qed

end
